theory Spec2Isabelle
  imports Complex_Main
begin

section \<open>Benchmark statistics of the Reframe load generator\<close>

text \<open>
  The benchmark scripts work on Python floats and unbounded integers. Floats are
  modelled as \<^typ>\<open>real\<close> (rounding is not modelled), integers as \<^typ>\<open>int\<close>,
  list lengths as \<^typ>\<open>nat\<close>. Every exception the modelled code can raise is a
  value of \<open>py_error\<close>, returned as \<open>Inl\<close>.
\<close>

datatype py_error = ZeroDivisionError | IndexError | ValueError

subsection \<open>Python primitives used by the scripts\<close>

text \<open>\<open>int(x)\<close> on a float truncates towards zero.\<close>

definition py_int :: "real \<Rightarrow> int" where
  "py_int x = (if 0 \<le> x then \<lfloor>x\<rfloor> else \<lceil>x\<rceil>)"

text \<open>
  \<open>data[i]\<close>: an index from \<open>-len\<close> up to \<open>-1\<close> counts from the end; an index
  outside \<open>-len .. len-1\<close> raises.
\<close>

definition py_index :: "'a list \<Rightarrow> int \<Rightarrow> py_error + 'a" where
  "py_index xs i =
     (if 0 \<le> i \<and> i < int (length xs) then Inr (xs ! nat i)
      else if - int (length xs) \<le> i \<and> i < 0 then Inr (xs ! nat (int (length xs) + i))
      else Inl IndexError)"

text \<open>\<open>a / b\<close> on numbers raises on a zero divisor.\<close>

definition py_truediv :: "real \<Rightarrow> real \<Rightarrow> py_error + real" where
  "py_truediv a b = (if b = 0 then Inl ZeroDivisionError else Inr (a / b))"

text \<open>\<open>max(xs)\<close> raises on an empty list.\<close>

definition py_max :: "real list \<Rightarrow> py_error + real" where
  "py_max xs = (case xs of [] \<Rightarrow> Inl ValueError | y # ys \<Rightarrow> Inr (fold max ys y))"

subsection \<open>Percentiles\<close>

text \<open>
  \<open>get_percentile\<close> of \<open>optimized_benchmark.py\<close>, \<open>enhanced_benchmark.py\<close> and
  \<open>scripts/run-benchmark.py\<close> (the three copies are the same text):
  \<^verbatim>\<open>
  def get_percentile(data, percentile):
      if not data:
          return 0
      index = int(len(data) * percentile / 100)
      if index >= len(data):
          index = len(data) - 1
      return data[index]
  \<close>
\<close>

definition get_percentile :: "real list \<Rightarrow> real \<Rightarrow> py_error + real" where
  "get_percentile data percentile =
     (if data = [] then Inr 0
      else
        let index = py_int (real (length data) * percentile / 100);
            index = (if index \<ge> int (length data) then int (length data) - 1 else index)
        in py_index data index)"

text \<open>
  Every caller sorts the collected latencies first (\<open>latencies.sort()\<close>,
  \<open>sorted(stats['latencies'])\<close>) and then asks for p50, p95, p99 (and p99.9).
\<close>

definition latency_percentile :: "real list \<Rightarrow> real \<Rightarrow> py_error + real" where
  "latency_percentile latencies p = get_percentile (sort latencies) p"

subsection \<open>Batch driver of \<open>fixed_benchmark.py\<close>: the partition of the volume\<close>

text \<open>
  \<open>FixedBenchmark.run_benchmark\<close> divides the volume into batches:
  \<^verbatim>\<open>
  batch_size = 5000
  num_batches = (total_requests + batch_size - 1) // batch_size
  for batch_num in range(1, num_batches + 1):
      requests_in_batch = min(batch_size, total_requests - (batch_num - 1) * batch_size)
  \<close>
  The batch size is a constant of the source; the functions below take it as the
  parameter \<open>B\<close>, and \<open>batch_plan\<close> is the instance the source runs. Python's
  \<open>//\<close> is floor division, as \<open>div\<close> on \<^typ>\<open>int\<close>.
\<close>

definition batch_size :: int where
  "batch_size = 5000"

definition num_batches_of :: "int \<Rightarrow> int \<Rightarrow> int" where
  "num_batches_of B total_requests = (total_requests + B - 1) div B"

definition requests_in_batch_of :: "int \<Rightarrow> int \<Rightarrow> int \<Rightarrow> int" where
  "requests_in_batch_of B total_requests batch_num =
     min B (total_requests - (batch_num - 1) * B)"

definition batch_plan_of :: "int \<Rightarrow> int \<Rightarrow> int list" where
  "batch_plan_of B total_requests =
     map (requests_in_batch_of B total_requests) [1..num_batches_of B total_requests]"

definition batch_plan :: "int \<Rightarrow> int list" where
  "batch_plan total_requests = batch_plan_of batch_size total_requests"

subsection \<open>Resource monitor\<close>

text \<open>
  \<open>CPUMonitor\<close> of \<open>optimized_benchmark.py\<close> and \<open>enhanced_benchmark.py\<close>. The
  object holds the two sample lists and the flag of the sampling loop; the thread
  handle is left out. The loop runs in a thread of its own: the model takes the
  readings the loop obtained (CPU percent, memory percent) in order and applies
  the loop body to each.
\<close>

record cpu_monitor =
  interval :: real
  cpu_samples :: "real list"
  memory_samples :: "real list"
  monitoring :: bool

record monitor_stats =
  avg_cpu :: real
  peak_cpu :: real
  avg_memory :: real
  peak_memory :: real

definition CPUMonitor :: "real \<Rightarrow> cpu_monitor" where
  "CPUMonitor i = \<lparr>interval = i, cpu_samples = [], memory_samples = [], monitoring = False\<rparr>"

definition start :: "cpu_monitor \<Rightarrow> cpu_monitor" where
  "start m = m\<lparr>monitoring := True\<rparr>"

text \<open>
  One round of \<open>_monitor_loop\<close>. \<open>enhanced_benchmark.py\<close> appends every reading;
  \<open>optimized_benchmark.py\<close> appends the pair only \<open>if cpu_percent > 0\<close>.
\<close>

definition sample_enhanced :: "real \<times> real \<Rightarrow> cpu_monitor \<Rightarrow> cpu_monitor" where
  "sample_enhanced r m =
     m\<lparr>cpu_samples := cpu_samples m @ [fst r], memory_samples := memory_samples m @ [snd r]\<rparr>"

definition sample_optimized :: "real \<times> real \<Rightarrow> cpu_monitor \<Rightarrow> cpu_monitor" where
  "sample_optimized r m =
     (if fst r > 0
      then m\<lparr>cpu_samples := cpu_samples m @ [fst r],
              memory_samples := memory_samples m @ [snd r]\<rparr>
      else m)"

definition monitor_loop_enhanced :: "(real \<times> real) list \<Rightarrow> cpu_monitor \<Rightarrow> cpu_monitor" where
  "monitor_loop_enhanced readings m = fold sample_enhanced readings m"

definition monitor_loop_optimized :: "(real \<times> real) list \<Rightarrow> cpu_monitor \<Rightarrow> cpu_monitor" where
  "monitor_loop_optimized readings m = fold sample_optimized readings m"

text \<open>
  \<open>stop\<close> (the same text in both files, but for the join timeout):
  \<^verbatim>\<open>
  self.monitoring = False
  ...
  if not self.cpu_samples:
      return {'avg_cpu': 0, 'peak_cpu': 0, 'avg_memory': 0, 'peak_memory': 0}
  return {
      'avg_cpu': sum(self.cpu_samples) / len(self.cpu_samples),
      'peak_cpu': max(self.cpu_samples),
      'avg_memory': sum(self.memory_samples) / len(self.memory_samples),
      'peak_memory': max(self.memory_samples)
  }
  \<close>
  The dictionary entries are evaluated in this order, so the first failing one
  decides the exception.
\<close>

definition stop :: "cpu_monitor \<Rightarrow> cpu_monitor \<times> (py_error + monitor_stats)" where
  "stop m =
     (m\<lparr>monitoring := False\<rparr>,
      if cpu_samples m = []
      then Inr \<lparr>avg_cpu = 0, peak_cpu = 0, avg_memory = 0, peak_memory = 0\<rparr>
      else
        case py_truediv (sum_list (cpu_samples m)) (real (length (cpu_samples m))) of
          Inl e \<Rightarrow> Inl e
        | Inr ac \<Rightarrow>
        case py_max (cpu_samples m) of
          Inl e \<Rightarrow> Inl e
        | Inr pc \<Rightarrow>
        case py_truediv (sum_list (memory_samples m)) (real (length (memory_samples m))) of
          Inl e \<Rightarrow> Inl e
        | Inr am \<Rightarrow>
        case py_max (memory_samples m) of
          Inl e \<Rightarrow> Inl e
        | Inr pm \<Rightarrow>
            Inr \<lparr>avg_cpu = ac, peak_cpu = pc, avg_memory = am, peak_memory = pm\<rparr>)"

subsection \<open>Request executors\<close>

text \<open>
  What the network did to one request: the HTTP exchange either delivered a response
  with a status code, or \<open>session.post\<close> / \<open>resp.read\<close> raised
  \<open>asyncio.TimeoutError\<close>, or raised another \<open>Exception\<close> (whose text is kept).
  An \<open>exchange\<close> is the clock reading before the call, the clock reading when the
  call ended (both \<open>time.perf_counter()\<close>, in seconds) and that outcome.
\<close>

datatype transport = Responded int | TimeoutError | OtherException string

type_synonym exchange = "real \<times> real \<times> transport"

text \<open>
  \<open>RequestWorker.process_request\<close> of \<open>optimized_benchmark.py\<close>:
  \<^verbatim>\<open>
  start = time.perf_counter()
  try:
      async with self.session.post(self.url, json=self.data) as resp:
          await resp.read()
          latency_ms = (time.perf_counter() - start) * 1000
          return latency_ms, resp.status == 200
  except asyncio.TimeoutError:
      latency_ms = (time.perf_counter() - start) * 1000
      return latency_ms, False
  except Exception:
      latency_ms = (time.perf_counter() - start) * 1000
      return latency_ms, False
  \<close>
\<close>

fun process_request :: "exchange \<Rightarrow> py_error + (real \<times> bool)" where
  "process_request (t0, t1, Responded status) = Inr ((t1 - t0) * 1000, status = 200)"
| "process_request (t0, t1, TimeoutError) = Inr ((t1 - t0) * 1000, False)"
| "process_request (t0, t1, OtherException e) = Inr ((t1 - t0) * 1000, False)"

text \<open>\<open>make_request\<close> of \<open>enhanced_benchmark.py\<close>: one handler, \<open>except Exception\<close>.\<close>

fun make_request_enhanced :: "exchange \<Rightarrow> py_error + (real \<times> bool)" where
  "make_request_enhanced (t0, t1, Responded status) =
     Inr ((t1 - t0) * 1000, status = 200)"
| "make_request_enhanced (t0, t1, _) = Inr ((t1 - t0) * 1000, False)"

text \<open>
  \<open>make_request\<close> inside \<open>run_batch\<close> of \<open>fixed_benchmark.py\<close>:
  \<^verbatim>\<open>
  start = time.perf_counter()
  try:
      async with session.post(url, json=data) as resp:
          await resp.read()
          latency = (time.perf_counter() - start) * 1000
          return latency, resp.status == 200
  except asyncio.TimeoutError:
      return 0, False
  except Exception:
      return 0, False
  \<close>
\<close>

fun make_request_fixed :: "exchange \<Rightarrow> py_error + (real \<times> bool)" where
  "make_request_fixed (t0, t1, Responded status) =
     Inr ((t1 - t0) * 1000, status = 200)"
| "make_request_fixed (t0, t1, TimeoutError) = Inr (0, False)"
| "make_request_fixed (t0, t1, OtherException e) = Inr (0, False)"

text \<open>
  \<open>make_request\<close> inside \<open>run_wave\<close> of \<open>investigate_degradation.py\<close> returns a
  third component, the error text: \<open>None\<close>, \<open>'timeout'\<close> or \<open>str(e)[:50]\<close>.
\<close>

fun make_request_wave :: "exchange \<Rightarrow> py_error + (real \<times> bool \<times> string option)" where
  "make_request_wave (t0, t1, Responded status) =
     Inr ((t1 - t0) * 1000, status = 200, None)"
| "make_request_wave (t0, t1, TimeoutError) = Inr (0, False, Some ''timeout'')"
| "make_request_wave (t0, t1, OtherException e) = Inr (0, False, Some (take 50 e))"

fun transport_failed :: "transport \<Rightarrow> bool" where
  "transport_failed (Responded status) = False"
| "transport_failed TimeoutError = True"
| "transport_failed (OtherException e) = True"

subsection \<open>Running requests and counting outcomes\<close>

text \<open>
  Sequencing of fallible steps: the first exception ends the computation.
\<close>

definition bind_err :: "py_error + 'a \<Rightarrow> ('a \<Rightarrow> py_error + 'b) \<Rightarrow> py_error + 'b" where
  "bind_err m f = (case m of Inl e \<Rightarrow> Inl e | Inr v \<Rightarrow> f v)"

text \<open>\<open>min(xs)\<close> raises on an empty list.\<close>

definition py_min :: "real list \<Rightarrow> py_error + real" where
  "py_min xs = (case xs of [] \<Rightarrow> Inl ValueError | y # ys \<Rightarrow> Inr (fold min ys y))"

text \<open>
  \<open>for i in range(start, n, step): s = body(i, s)\<close> for a positive step. With a step
  that is not positive the function returns the state as it is; the callers below
  say what the source does with such a step before they use it.
\<close>

function for_range :: "int \<Rightarrow> int \<Rightarrow> int \<Rightarrow> (int \<Rightarrow> 's \<Rightarrow> 's) \<Rightarrow> 's \<Rightarrow> 's" where
  "for_range i n step body s =
     (if 0 < step \<and> i < n then for_range (i + step) n step body (body i s) else s)"
  by pat_completeness auto
termination
  by (relation "measure (\<lambda>(i, n, step, body, s). nat (n - i))") auto

declare for_range.simps [simp del]

text \<open>
  \<open>asyncio.gather(..., return_exceptions=True)\<close> hands back, for each task, the value
  it returned or the exception it raised.
\<close>

datatype 'a task_result = Returned 'a | Raised py_error

definition gathered :: "py_error + 'a \<Rightarrow> 'a task_result" where
  "gathered r = (case r of Inl e \<Rightarrow> Raised e | Inr v \<Rightarrow> Returned v)"

text \<open>The counters and the latency list that each script keeps while a run lasts.\<close>

record stats =
  latencies :: "real list"
  successes :: nat
  failures :: nat

definition no_stats :: stats where
  "no_stats = \<lparr>latencies = [], successes = 0, failures = 0\<rparr>"

text \<open>The result dictionaries of \<open>run_benchmark_test\<close> (the \<open>config\<close> entry and the
  time stamp are left out).\<close>

record performance =
  total_time :: real
  throughput :: real
  success_rate :: real
  total_requests :: int
  successful :: nat
  failed :: nat

record latency_summary =
  lat_min :: real
  lat_avg :: real
  p50 :: real
  p95 :: real
  p99 :: real
  lat_max :: real

record benchmark_result =
  performance :: performance
  latency :: latency_summary
  resources :: monitor_stats

text \<open>
  The \<open>latency\<close> entry, the same text in both scripts:
  \<^verbatim>\<open>
  'min': min(latencies) if latencies else 0,
  'avg': sum(latencies) / len(latencies) if latencies else 0,
  'p50': get_percentile(latencies, 50),
  'p95': get_percentile(latencies, 95),
  'p99': get_percentile(latencies, 99),
  'max': max(latencies) if latencies else 0
  \<close>
\<close>

definition summarize_latencies :: "real list \<Rightarrow> py_error + latency_summary" where
  "summarize_latencies lats =
     bind_err (if lats \<noteq> [] then py_min lats else Inr 0) (\<lambda>mn.
     bind_err (if lats \<noteq> [] then py_truediv (sum_list lats) (real (length lats)) else Inr 0) (\<lambda>av.
     bind_err (get_percentile lats 50) (\<lambda>q50.
     bind_err (get_percentile lats 95) (\<lambda>q95.
     bind_err (get_percentile lats 99) (\<lambda>q99.
     bind_err (if lats \<noteq> [] then py_max lats else Inr 0) (\<lambda>mx.
     Inr \<lparr>lat_min = mn, lat_avg = av, p50 = q50, p95 = q95, p99 = q99, lat_max = mx\<rparr>))))))"

text \<open>
  The tail of both \<open>run_benchmark_test\<close> functions, from \<open>monitor.stop()\<close> on:
  \<^verbatim>\<open>
  cpu_stats = monitor.stop()
  latencies = sorted(stats['latencies'])          # latencies.sort() in enhanced
  throughput = num_requests / total_time if total_time > 0 else 0
  return {
      'performance': {
          'total_time': total_time,
          'throughput': throughput,
          'success_rate': (successes / num_requests * 100) if num_requests > 0 else 0,
          'total_requests': num_requests,
          'successful': successes,
          'failed': failures
      },
      'latency': {...},
      'resources': {...}
  }
  \<close>
\<close>

definition benchmark_report ::
  "int \<Rightarrow> real \<Rightarrow> cpu_monitor \<Rightarrow> stats \<Rightarrow> py_error + benchmark_result" where
  "benchmark_report num_requests time_taken monitor st =
     bind_err (snd (stop monitor)) (\<lambda>cpu_stats.
     let lats = sort (latencies st);
         tp = (if time_taken > 0 then real_of_int num_requests / time_taken else 0)
     in
     bind_err (if num_requests > 0
               then bind_err (py_truediv (real (successes st)) (real_of_int num_requests))
                      (\<lambda>r. Inr (r * 100))
               else Inr 0) (\<lambda>rate.
     bind_err (summarize_latencies lats) (\<lambda>lat.
     Inr \<lparr>performance =
            \<lparr>total_time = time_taken, throughput = tp, success_rate = rate,
             total_requests = num_requests, successful = successes st, failed = failures st\<rparr>,
          latency = lat,
          resources = cpu_stats\<rparr>)))"

subsubsection \<open>\<open>optimized_benchmark.py\<close>\<close>

text \<open>
  \<^verbatim>\<open>
  async def process_with_stats(worker):
      async with semaphore:
          latency, success = await worker.process_request()
          async with stats['lock']:
              stats['latencies'].append(latency)
              if success:
                  stats['successes'] += 1
              else:
                  stats['failures'] += 1
  \<close>
\<close>

definition process_with_stats :: "exchange \<Rightarrow> stats \<Rightarrow> py_error + stats" where
  "process_with_stats x st =
     bind_err (process_request x) (\<lambda>(lat, success).
       Inr (if success
            then st\<lparr>latencies := latencies st @ [lat], successes := successes st + 1\<rparr>
            else st\<lparr>latencies := latencies st @ [lat], failures := failures st + 1\<rparr>))"

text \<open>
  \<open>await asyncio.gather(*tasks, return_exceptions=True)\<close>: every task runs; a task that
  raised leaves the statistics as they were. The lock makes the updates atomic, so
  the tasks update the statistics one after the other, in the order of the list.
\<close>

definition gather_with_stats :: "exchange list \<Rightarrow> stats \<Rightarrow> stats" where
  "gather_with_stats xs st =
     fold (\<lambda>x s. case process_with_stats x s of Inl e \<Rightarrow> s | Inr s' \<Rightarrow> s') xs st"

text \<open>
  \<open>run_benchmark_test\<close> of \<open>optimized_benchmark.py\<close>. \<open>net k\<close> is the exchange of the
  \<open>k\<close>-th request, \<open>time_taken\<close> the measured \<open>total_time\<close>, \<open>monitor\<close> the monitor
  object when it is stopped. \<open>asyncio.Semaphore(concurrent)\<close> raises \<open>ValueError\<close> on
  a negative value, and \<open>workers[i % num_workers]\<close> divides by
  \<open>num_workers = min(concurrent, 100)\<close>.
\<close>

definition run_benchmark_test_optimized ::
  "int \<Rightarrow> int \<Rightarrow> (nat \<Rightarrow> exchange) \<Rightarrow> real \<Rightarrow> cpu_monitor \<Rightarrow> py_error + benchmark_result" where
  "run_benchmark_test_optimized num_requests concurrent net time_taken monitor =
     (let num_workers = min concurrent 100 in
      if concurrent < 0 then Inl ValueError
      else if 0 < num_requests \<and> num_workers = 0 then Inl ZeroDivisionError
      else benchmark_report num_requests time_taken monitor
             (gather_with_stats (map net [0..<nat num_requests]) no_stats))"

subsubsection \<open>\<open>enhanced_benchmark.py\<close>\<close>

text \<open>
  \<^verbatim>\<open>
  for i in range(0, num_requests, concurrent):
      batch_size = min(concurrent, num_requests - i)
      batch = [make_request(session, url, data) for _ in range(batch_size)]
      try:
          results = await asyncio.wait_for(
              asyncio.gather(*batch, return_exceptions=True), timeout=30.0)
      except asyncio.TimeoutError:
          results = [(0, False)] * batch_size
      for result in results:
          if isinstance(result, Exception):
              latencies.append(0)
              failures += 1
          else:
              latency, success = result
              latencies.append(latency)
              if success:
                  successes += 1
              else:
                  failures += 1
  \<close>
\<close>

fun record_result_enhanced :: "(real \<times> bool) task_result \<Rightarrow> stats \<Rightarrow> stats" where
  "record_result_enhanced (Raised e) st =
     st\<lparr>latencies := latencies st @ [0], failures := failures st + 1\<rparr>"
| "record_result_enhanced (Returned (lat, success)) st =
     (if success
      then st\<lparr>latencies := latencies st @ [lat], successes := successes st + 1\<rparr>
      else st\<lparr>latencies := latencies st @ [lat], failures := failures st + 1\<rparr>)"

text \<open>\<open>timed_out i\<close> says whether the batch that starts at request \<open>i\<close> hit the
  30 second limit.\<close>

definition batch_body_enhanced ::
  "(nat \<Rightarrow> exchange) \<Rightarrow> (int \<Rightarrow> bool) \<Rightarrow> int \<Rightarrow> int \<Rightarrow> int \<Rightarrow> stats \<Rightarrow> stats" where
  "batch_body_enhanced net timed_out num_requests concurrent i st =
     (let batch_size = min concurrent (num_requests - i);
          results =
            (if timed_out i then replicate (nat batch_size) (Returned (0, False))
             else map (\<lambda>k. gathered (make_request_enhanced (net k)))
                    [nat i ..< nat i + nat batch_size])
      in fold record_result_enhanced results st)"

text \<open>
  \<open>range(0, num_requests, concurrent)\<close> raises \<open>ValueError\<close> on the step 0. With a
  negative step the range is empty, or (when \<open>num_requests\<close> is negative too) every
  \<open>batch_size\<close> is negative and every batch empty: the statistics stay as they are.
\<close>

definition run_benchmark_test_enhanced ::
  "int \<Rightarrow> int \<Rightarrow> (nat \<Rightarrow> exchange) \<Rightarrow> (int \<Rightarrow> bool) \<Rightarrow> real \<Rightarrow> cpu_monitor
     \<Rightarrow> py_error + benchmark_result" where
  "run_benchmark_test_enhanced num_requests concurrent net timed_out time_taken monitor =
     (if concurrent = 0 then Inl ValueError
      else benchmark_report num_requests time_taken monitor
             (for_range 0 num_requests concurrent
                (batch_body_enhanced net timed_out num_requests concurrent) no_stats))"

subsubsection \<open>\<open>fixed_benchmark.py\<close>: one batch\<close>

text \<open>
  \<^verbatim>\<open>
  chunk_size = min(500, num_requests)
  for i in range(0, num_requests, chunk_size):
      chunk_requests = min(chunk_size, num_requests - i)
      tasks = [make_request() for _ in range(chunk_requests)]
      results = await asyncio.gather(*tasks, return_exceptions=True)
      for result in results:
          if isinstance(result, tuple):
              latency, success = result
              if success:
                  successes += 1
                  if latency > 0:
                      latencies.append(latency)
              else:
                  failures += 1
          else:
              failures += 1
  \<close>
\<close>

fun record_result_fixed :: "(real \<times> bool) task_result \<Rightarrow> stats \<Rightarrow> stats" where
  "record_result_fixed (Returned (lat, success)) st =
     (if success
      then (if lat > 0
            then st\<lparr>latencies := latencies st @ [lat], successes := successes st + 1\<rparr>
            else st\<lparr>successes := successes st + 1\<rparr>)
      else st\<lparr>failures := failures st + 1\<rparr>)"
| "record_result_fixed (Raised e) st = st\<lparr>failures := failures st + 1\<rparr>"

definition chunk_body_fixed ::
  "(nat \<Rightarrow> exchange) \<Rightarrow> int \<Rightarrow> int \<Rightarrow> int \<Rightarrow> stats \<Rightarrow> stats" where
  "chunk_body_fixed net num_requests chunk_size i st =
     (let chunk_requests = min chunk_size (num_requests - i);
          results = map (\<lambda>k. gathered (make_request_fixed (net k)))
                      [nat i ..< nat i + nat chunk_requests]
      in fold record_result_fixed results st)"

text \<open>The dictionary that \<open>run_batch\<close> returns.\<close>

record batch_result =
  batch :: int
  batch_throughput :: real
  batch_success_rate :: real
  batch_total_requests :: int
  batch_successful :: nat
  batch_failed :: nat
  avg_latency :: real
  p99_latency :: real
  duration :: real

text \<open>
  The rest of \<open>run_batch\<close>:
  \<^verbatim>\<open>
  throughput = successes / total_time if total_time > 0 else 0
  latencies.sort()
  avg_latency = sum(latencies) / len(latencies) if latencies else 0
  p99_latency = latencies[int(len(latencies) * 0.99)] if latencies else 0
  return {'batch': batch_num, 'throughput': throughput,
          'success_rate': (successes / num_requests * 100) if num_requests > 0 else 0,
          'total_requests': num_requests, 'successful': successes, 'failed': failures,
          'avg_latency': avg_latency, 'p99_latency': p99_latency, 'duration': total_time}
  \<close>
  \<open>asyncio.Semaphore(concurrent)\<close> raises on a negative value and
  \<open>range(0, num_requests, 0)\<close> raises when \<open>num_requests\<close> is 0. A negative
  \<open>num_requests\<close> gives the one-element range \<open>[0]\<close> and an empty chunk there.
\<close>

definition run_batch ::
  "int \<Rightarrow> int \<Rightarrow> int \<Rightarrow> (nat \<Rightarrow> exchange) \<Rightarrow> real \<Rightarrow> py_error + batch_result" where
  "run_batch batch_num num_requests concurrent net time_taken =
     (if concurrent < 0 then Inl ValueError
      else
        let chunk_size = min 500 num_requests in
        if chunk_size = 0 then Inl ValueError
        else
          let st = for_range 0 num_requests chunk_size
                     (chunk_body_fixed net num_requests chunk_size) no_stats;
              tp = (if time_taken > 0 then real (successes st) / time_taken else 0);
              lats = sort (latencies st)
          in
          bind_err (if lats \<noteq> [] then py_truediv (sum_list lats) (real (length lats))
                    else Inr 0) (\<lambda>av.
          bind_err (if lats \<noteq> [] then py_index lats (py_int (real (length lats) * 0.99))
                    else Inr 0) (\<lambda>q99.
          bind_err (if num_requests > 0
                    then bind_err (py_truediv (real (successes st)) (real_of_int num_requests))
                           (\<lambda>r. Inr (r * 100))
                    else Inr 0) (\<lambda>rate.
          Inr \<lparr>batch = batch_num, batch_throughput = tp, batch_success_rate = rate,
               batch_total_requests = num_requests, batch_successful = successes st,
               batch_failed = failures st, avg_latency = av, p99_latency = q99,
               duration = time_taken\<rparr>))))"

text \<open>The number of outcomes counted so far.\<close>

definition accounted :: "stats \<Rightarrow> nat" where
  "accounted st = successes st + failures st"

subsubsection \<open>\<open>investigate_degradation.py\<close>: one wave\<close>

text \<open>
  \<open>monitor_connections\<close> returns the counts read from \<open>netstat\<close>, or the dictionary
  \<open>{'error': ...}\<close> when reading them failed (\<open>None\<close> below). The \<open>states\<close> entry
  is left out.
\<close>

record connections =
  conn_total :: int
  time_wait :: int
  established :: int
  close_wait :: int
  fin_wait :: int

text \<open>The dictionary that \<open>run_wave\<close> returns (\<open>time_since_start\<close> is left out).\<close>

record wave_metrics =
  wave :: int
  wave_throughput :: real
  wave_successful :: nat
  wave_failed :: int
  wave_avg_latency :: real
  wave_p99_latency :: real
  memory_mb :: real
  connections_before :: "connections option"
  connections_after :: "connections option"
  connection_growth :: int
  errors :: "string list"

text \<open>
  \<open>asyncio.gather(*tasks)\<close> without \<open>return_exceptions\<close>: the first exception of a
  task is raised to the caller.
\<close>

fun gather_all :: "(py_error + 'a) list \<Rightarrow> py_error + 'a list" where
  "gather_all [] = Inr []"
| "gather_all (r # rs) =
     bind_err r (\<lambda>v. bind_err (gather_all rs) (\<lambda>vs. Inr (v # vs)))"

text \<open>
  \<^verbatim>\<open>
  successful = 0
  for latency, success, error in results:
      if success:
          successful += 1
          latencies.append(latency)
      elif error:
          errors.append(error)
  \<close>
  An empty error text is false in Python.
\<close>

fun tally_wave ::
  "real \<times> bool \<times> string option \<Rightarrow> nat \<times> real list \<times> string list
     \<Rightarrow> nat \<times> real list \<times> string list" where
  "tally_wave (lat, success, error) (n, lats, errs) =
     (if success then (n + 1, lats @ [lat], errs)
      else (case error of
              None \<Rightarrow> (n, lats, errs)
            | Some e \<Rightarrow> if e \<noteq> [] then (n, lats, errs @ [e]) else (n, lats, errs)))"

text \<open>
  The rest of \<open>run_wave\<close>:
  \<^verbatim>\<open>
  throughput = successful / duration if duration > 0 else 0
  avg_latency = sum(latencies) / len(latencies) if latencies else 0
  p99_latency = sorted(latencies)[int(len(latencies) * 0.99)] if latencies else 0
  result = {'wave': wave_num, 'throughput': throughput, 'successful': successful,
            'failed': requests_per_wave - successful, ...,
            'connection_growth': conn_after.get('total', 0) - conn_before.get('total', 0),
            'errors': errors[:10] if errors else []}
  ...
  print(f"Success rate: {successful}/{requests_per_wave} "
        f"({successful/requests_per_wave*100:.1f}%)")
  return result
  \<close>
  The last \<open>print\<close> divides by \<open>requests_per_wave\<close>.
\<close>

definition run_wave ::
  "int \<Rightarrow> int \<Rightarrow> int \<Rightarrow> (nat \<Rightarrow> exchange) \<Rightarrow> real \<Rightarrow> connections option
     \<Rightarrow> connections option \<Rightarrow> real \<Rightarrow> py_error + wave_metrics" where
  "run_wave wave_num requests_per_wave concurrency net time_taken conn_before conn_after mem =
     (if concurrency < 0 then Inl ValueError
      else
        bind_err (gather_all (map (\<lambda>k. make_request_wave (net k))
                                [0..<nat requests_per_wave])) (\<lambda>results.
        case fold tally_wave results (0, [], []) of (n_ok, lats, errs) \<Rightarrow>
        let tp = (if time_taken > 0 then real n_ok / time_taken else 0) in
        bind_err (if lats \<noteq> [] then py_truediv (sum_list lats) (real (length lats))
                  else Inr 0) (\<lambda>av.
        bind_err (if lats \<noteq> [] then py_index (sort lats) (py_int (real (length lats) * 0.99))
                  else Inr 0) (\<lambda>q99.
        let total_of = (\<lambda>c. case c of None \<Rightarrow> 0 | Some s \<Rightarrow> conn_total s);
            result =
              \<lparr>wave = wave_num, wave_throughput = tp, wave_successful = n_ok,
               wave_failed = requests_per_wave - int n_ok, wave_avg_latency = av,
               wave_p99_latency = q99, memory_mb = mem,
               connections_before = conn_before, connections_after = conn_after,
               connection_growth = total_of conn_after - total_of conn_before,
               errors = take 10 errs\<rparr>
        in
        bind_err (py_truediv (real n_ok) (real_of_int requests_per_wave)) (\<lambda>shown.
        Inr result)))))"

text \<open>An outcome is counted once: one of the two counters goes up by one, the other
  stays.\<close>

definition counts_once :: "stats \<Rightarrow> stats \<Rightarrow> bool" where
  "counts_once st st' \<longleftrightarrow>
     (successes st' = successes st + 1 \<and> failures st' = failures st)
     \<or> (successes st' = successes st \<and> failures st' = failures st + 1)"

subsubsection \<open>\<open>fixed_benchmark.py\<close>: the whole run\<close>

text \<open>
  The loop of \<open>FixedBenchmark.run_benchmark\<close> over the batches:
  \<^verbatim>\<open>
  for batch_num in range(1, num_batches + 1):
      requests_in_batch = min(batch_size, total_requests - (batch_num - 1) * batch_size)
      result = await self.run_batch(batch_num, requests_in_batch, concurrent, data)
      all_results.append(result)
      cumulative_time += result['duration']
      cumulative_requests += result['total_requests']
      cumulative_successes += result['successful']
  \<close>
  \<open>net b\<close> gives the exchanges of batch \<open>b\<close> and \<open>durations b\<close> its measured time.
  An exception of \<open>run_batch\<close> ends the run.
\<close>

fun run_batches ::
  "int \<Rightarrow> int \<Rightarrow> (int \<Rightarrow> nat \<Rightarrow> exchange) \<Rightarrow> (int \<Rightarrow> real) \<Rightarrow> int list
     \<Rightarrow> batch_result list \<times> real \<times> int \<times> nat
     \<Rightarrow> py_error + (batch_result list \<times> real \<times> int \<times> nat)" where
  "run_batches total_reqs concurrent net durations [] acc = Inr acc"
| "run_batches total_reqs concurrent net durations (batch_num # rest)
       (all_results, cumulative_time, cumulative_requests, cumulative_successes) =
     bind_err
       (run_batch batch_num (requests_in_batch_of batch_size total_reqs batch_num) concurrent
          (net batch_num) (durations batch_num))
       (\<lambda>result.
          run_batches total_reqs concurrent net durations rest
            (all_results @ [result],
             cumulative_time + duration result,
             cumulative_requests + batch_total_requests result,
             cumulative_successes + batch_successful result))"

text \<open>The \<open>performance\<close>, \<open>latency\<close> and \<open>batches\<close> entries of the dictionary that
  \<open>run_benchmark\<close> returns.\<close>

record run_summary =
  run_total_time :: real
  run_throughput :: real
  run_success_rate :: real
  run_total_requests :: int
  run_successful :: nat
  run_failed :: int
  run_p99 :: real
  batches :: "batch_result list"

text \<open>
  After the loop:
  \<^verbatim>\<open>
  overall_throughput = cumulative_successes / cumulative_time if cumulative_time > 0 else 0
  all_latencies = []
  for r in all_results:
      all_latencies.extend([r['avg_latency']] * r['successful'])
  all_latencies.sort()
  overall_p99 = all_latencies[int(len(all_latencies) * 0.99)] if all_latencies else 0
  if len(all_results) > 1:
      first_throughput = all_results[0]['throughput']
      last_throughput = all_results[-1]['throughput']
      degradation = (first_throughput - last_throughput) / first_throughput * 100
  return {
      ...
      'performance': {
          'total_time': cumulative_time,
          'throughput': overall_throughput,
          'success_rate': (cumulative_successes / cumulative_requests * 100),
          'total_requests': cumulative_requests,
          'successful': cumulative_successes,
          'failed': cumulative_requests - cumulative_successes
      },
      'latency': {'p99': overall_p99},
      'batches': all_results, ...
  }
  \<close>
\<close>

definition run_benchmark ::
  "int \<Rightarrow> int \<Rightarrow> (int \<Rightarrow> nat \<Rightarrow> exchange) \<Rightarrow> (int \<Rightarrow> real) \<Rightarrow> py_error + run_summary" where
  "run_benchmark total_reqs concurrent net durations =
     (let num_batches = num_batches_of batch_size total_reqs in
      bind_err (run_batches total_reqs concurrent net durations [1..num_batches] ([], 0, 0, 0))
        (\<lambda>(all_results, cumulative_time, cumulative_requests, cumulative_successes).
      let overall_throughput =
            (if cumulative_time > 0 then real cumulative_successes / cumulative_time else 0);
          all_latencies =
            sort (concat (map (\<lambda>r. replicate (batch_successful r) (avg_latency r)) all_results))
      in
      bind_err (if all_latencies \<noteq> []
                then py_index all_latencies (py_int (real (length all_latencies) * 0.99))
                else Inr 0) (\<lambda>overall_p99.
      bind_err (if length all_results > 1
                then bind_err (py_truediv (batch_throughput (hd all_results)
                                            - batch_throughput (last all_results))
                                 (batch_throughput (hd all_results)))
                       (\<lambda>q. Inr (q * 100))
                else Inr 0) (\<lambda>degradation.
      bind_err (py_truediv (real cumulative_successes) (real_of_int cumulative_requests))
        (\<lambda>q.
      Inr \<lparr>run_total_time = cumulative_time,
           run_throughput = overall_throughput,
           run_success_rate = q * 100,
           run_total_requests = cumulative_requests,
           run_successful = cumulative_successes,
           run_failed = cumulative_requests - int cumulative_successes,
           run_p99 = overall_p99,
           batches = all_results\<rparr>)))))"

subsection \<open>Degradation analysis\<close>

text \<open>
  \<open>DegradationInvestigator.analyze_degradation\<close> appends text lines to \<open>issues\<close>; each
  line is one constructor here, in the order of the source:
  "Significant throughput degradation detected", "Memory leak suspected (growing
  memory usage)", "Connection leak (connections not being closed)", "TIME_WAIT
  accumulation (port exhaustion risk)", "Gradual degradation (accumulating resource
  issue)", "Sudden degradation (hitting a limit)".
\<close>

datatype finding =
  SignificantDegradation
| MemoryLeakSuspected
| ConnectionLeak
| TimeWaitAccumulation
| GradualDegradation
| SuddenDegradation

text \<open>The \<open>summary\<close> that the function writes out.\<close>

record analysis =
  degradation_pct :: real
  first_throughput :: real
  last_throughput :: real
  issues :: "finding list"

text \<open>
  \<^verbatim>\<open>
  for m in self.metrics:
      if 'connections_after' in m and 'total' in m['connections_after']:
          total_connections.append(m['connections_after']['total'])
          time_wait_connections.append(m['connections_after'].get('time_wait', 0))
  \<close>
  Only the waves whose connection counts could be read contribute.
\<close>

definition total_connections :: "wave_metrics list \<Rightarrow> int list" where
  "total_connections metrics =
     concat (map (\<lambda>m. case connections_after m of None \<Rightarrow> [] | Some c \<Rightarrow> [conn_total c])
               metrics)"

definition time_wait_connections :: "wave_metrics list \<Rightarrow> int list" where
  "time_wait_connections metrics =
     concat (map (\<lambda>m. case connections_after m of None \<Rightarrow> [] | Some c \<Rightarrow> [time_wait c])
               metrics)"

text \<open>
  \<^verbatim>\<open>
  if len(self.metrics) < 2:
      print("Not enough data to analyze")
      return
  throughputs = [m['throughput'] for m in self.metrics]
  memories = [m['memory_mb'] for m in self.metrics]
  first_throughput = throughputs[0]
  last_throughput = throughputs[-1]
  degradation_pct = (first_throughput - last_throughput) / first_throughput * 100
  ...
  issues = []
  if degradation_pct > 20:
      issues.append("Significant throughput degradation detected")
      if memories[-1] - memories[0] > 100:
          issues.append("Memory leak suspected ...")
      if total_connections and total_connections[-1] - total_connections[0] > 100:
          issues.append("Connection leak ...")
      if time_wait_connections and time_wait_connections[-1] > 1000:
          issues.append("TIME_WAIT accumulation ...")
      mid_point = len(throughputs) // 2
      mid_throughput = throughputs[mid_point]
      if (first_throughput - mid_throughput) / first_throughput > 0.1:
          issues.append("Gradual degradation ...")
      else:
          issues.append("Sudden degradation ...")
  \<close>
  The function returns nothing; the model returns the summary it saves, and \<open>None\<close>
  where it leaves early. With two waves or more, index 0, index \<open>-1\<close> and the middle
  index are inside the lists.
\<close>

definition analyze_degradation :: "wave_metrics list \<Rightarrow> py_error + analysis option" where
  "analyze_degradation metrics =
     (if length metrics < 2 then Inr None
      else
        let throughputs = map wave_throughput metrics;
            memories = map memory_mb metrics;
            first_tp = hd throughputs;
            last_tp = last throughputs
        in
        bind_err (py_truediv (first_tp - last_tp) first_tp) (\<lambda>q.
        let pct = q * 100;
            totals = total_connections metrics;
            time_waits = time_wait_connections metrics
        in
        bind_err
          (if pct > 20
           then
             let mid_point = length throughputs div 2;
                 mid_throughput = throughputs ! mid_point
             in
             bind_err (py_truediv (first_tp - mid_throughput) first_tp) (\<lambda>dropped.
             Inr ([SignificantDegradation]
                  @ (if last memories - hd memories > 100 then [MemoryLeakSuspected] else [])
                  @ (if totals \<noteq> [] \<and> last totals - hd totals > 100
                     then [ConnectionLeak] else [])
                  @ (if time_waits \<noteq> [] \<and> last time_waits > 1000
                     then [TimeWaitAccumulation] else [])
                  @ (if dropped > 0.1 then [GradualDegradation] else [SuddenDegradation])))
           else Inr [])
          (\<lambda>found.
        Inr (Some \<lparr>degradation_pct = pct, first_throughput = first_tp,
                   last_throughput = last_tp, issues = found\<rparr>))))"

subsection \<open>Concurrency controller\<close>

text \<open>
  \<open>optimized_benchmark.py\<close>, \<open>fixed_benchmark.py\<close> and \<open>investigate_degradation.py\<close>
  bound the requests in flight in the same way:
  \<^verbatim>\<open>
  semaphore = asyncio.Semaphore(concurrent)
  async def make_request():
      async with semaphore:
          ... await the HTTP exchange ...
  tasks = [make_request() for _ in range(n)]
  results = await asyncio.gather(*tasks, return_exceptions=True)
  \<close>
  The tasks run on one event loop, which resumes one task at a time, so a run is a
  sequence of task steps. A task waits at \<open>async with semaphore\<close>, then holds the
  semaphore while its request is at the target, then has left the block.
  \<open>asyncio.Semaphore\<close> is taken by its contract: \<open>acquire\<close> goes through only while
  the counter is positive and decrements it, \<open>release\<close> (leaving the block, by return
  or by exception) increments it. Which waiting task goes first is left open.
\<close>

datatype task_state = Waiting | InFlight | Finished

record controller =
  sem_value :: nat
  task_states :: "task_state list"

definition start_controller :: "nat \<Rightarrow> nat \<Rightarrow> controller" where
  "start_controller concurrent n = \<lparr>sem_value = concurrent, task_states = replicate n Waiting\<rparr>"

text \<open>The event loop resumes task \<open>k\<close>. A waiting task that finds the counter at 0
  stays waiting; a finished task has no step left.\<close>

definition resume :: "nat \<Rightarrow> controller \<Rightarrow> controller" where
  "resume k s =
     (if k < length (task_states s)
      then (case task_states s ! k of
              Waiting \<Rightarrow>
                if sem_value s > 0
                then s\<lparr>sem_value := sem_value s - 1,
                       task_states := (task_states s)[k := InFlight]\<rparr>
                else s
            | InFlight \<Rightarrow>
                s\<lparr>sem_value := sem_value s + 1,
                  task_states := (task_states s)[k := Finished]\<rparr>
            | Finished \<Rightarrow> s)
      else s)"

definition run_schedule :: "nat list \<Rightarrow> controller \<Rightarrow> controller" where
  "run_schedule schedule s = fold resume schedule s"

text \<open>What an observer at the target sees: the number of requests in flight.\<close>

definition depth :: "controller \<Rightarrow> nat" where
  "depth s = count_list (task_states s) InFlight"

section \<open>Properties\<close>

subsection \<open>Percentiles\<close>

lemma py_int_nonneg: "0 \<le> x \<Longrightarrow> py_int x = \<lfloor>x\<rfloor>"
  by (simp add: py_int_def)

lemma percentile_rank_nonneg:
  assumes "0 \<le> p"
  shows "0 \<le> \<lfloor>real n * p / 100\<rfloor>"
  using assms by simp

lemma py_index_in_range:
  assumes "0 \<le> i" and "i < int (length xs)"
  shows "py_index xs i = Inr (xs ! nat i)"
  using assms by (simp add: py_index_def)

lemma get_percentile_nearest_rank:
  assumes "0 \<le> p"
  shows "get_percentile data p =
           Inr (if data = [] then 0
                else data ! min (nat \<lfloor>real (length data) * p / 100\<rfloor>) (length data - 1))"
proof (cases "data = []")
  case True
  then show ?thesis by (simp add: get_percentile_def)
next
  case False
  define k where "k = \<lfloor>real (length data) * p / 100\<rfloor>"
  have k0: "0 \<le> k" unfolding k_def using assms by simp
  have len: "0 < length data" using False by simp
  have trunc: "py_int (real (length data) * p / 100) = k"
    unfolding k_def using assms by (simp add: py_int_nonneg)
  show ?thesis
  proof (cases "k \<ge> int (length data)")
    case True
    then have "min (nat k) (length data - 1) = length data - 1" by linarith
    moreover have "py_index data (int (length data) - 1) = Inr (data ! (length data - 1))"
    proof -
      have "nat (int (length data) - 1) = length data - 1" by linarith
      then show ?thesis using len by (simp add: py_index_def)
    qed
    ultimately show ?thesis
      using False True trunc by (simp add: get_percentile_def k_def Let_def)
  next
    case ge: False
    then have "min (nat k) (length data - 1) = nat k" using k0 by linarith
    moreover have "py_index data k = Inr (data ! nat k)"
      using ge k0 by (simp add: py_index_in_range)
    ultimately show ?thesis
      using False ge trunc by (simp add: get_percentile_def k_def Let_def)
  qed
qed

text \<open>
  C1. For every list of latencies and every percentile \<open>p\<close> in [0,100],
  \<open>get_percentile\<close> returns the element of the list it is given (the callers pass
  the sorted latencies) at index \<open>floor(count * p / 100)\<close>, clamped to
  \<open>count - 1\<close> (nearest rank, no interpolation), and 0 for an empty list; it does
  not raise.
\<close>

theorem percentile_nearest_rank:
  assumes "0 \<le> p" and "p \<le> 100"
  shows "get_percentile data p =
           Inr (if data = [] then 0
                else data ! min (nat \<lfloor>real (length data) * p / 100\<rfloor>) (length data - 1))
         \<and> latency_percentile lats p =
           Inr (if lats = [] then 0
                else sort lats !
                       min (nat \<lfloor>real (length lats) * p / 100\<rfloor>) (length lats - 1))"
proof -
  have "sort lats = [] \<longleftrightarrow> lats = []"
    by (metis length_sort length_0_conv)
  then show ?thesis
    using get_percentile_nearest_rank [OF assms(1), of "sort lats"]
      get_percentile_nearest_rank [OF assms(1), of data]
    by (simp add: latency_percentile_def)
qed

theorem percentile_nearest_rank_witness:
  "(0::real) \<le> 50 \<and> (50::real) \<le> 100
   \<and> get_percentile [10, 20, 30, 40] 50 = Inr 30
   \<and> latency_percentile [30, 10, 20] 50 = Inr 20"
  using percentile_nearest_rank [of 50 "[10, 20, 30, 40]" "[30, 10, 20]"]
  by simp

text \<open>
  C10. The percentile is monotone in the percentile argument: on a sorted list, for
  \<open>p \<le> q\<close> in [0,100], the value returned for \<open>p\<close> is at most the value
  returned for \<open>q\<close> (and both calls return a value).
\<close>

theorem percentile_monotone:
  assumes "sorted data" and "0 \<le> p" and "p \<le> q" and "q \<le> 100"
  shows "\<exists>a b. get_percentile data p = Inr a \<and> get_percentile data q = Inr b \<and> a \<le> b"
proof (cases "data = []")
  case True
  then show ?thesis by (simp add: get_percentile_def)
next
  case False
  define n where "n = length data"
  define i where "i = min (nat \<lfloor>real n * p / 100\<rfloor>) (n - 1)"
  define j where "j = min (nat \<lfloor>real n * q / 100\<rfloor>) (n - 1)"
  have n0: "0 < n" using False by (simp add: n_def)
  have "real n * p / 100 \<le> real n * q / 100"
    using assms(3) by (simp add: mult_left_mono)
  then have "\<lfloor>real n * p / 100\<rfloor> \<le> \<lfloor>real n * q / 100\<rfloor>"
    by (rule floor_mono)
  then have ij: "i \<le> j" unfolding i_def j_def by (simp add: min.coboundedI1 nat_mono)
  have jn: "j < n" unfolding j_def using n0 by simp
  have le: "data ! i \<le> data ! j"
    using assms(1) ij jn by (simp add: sorted_nth_mono n_def)
  have q0: "0 \<le> q" using assms(2,3) by simp
  have "get_percentile data p = Inr (data ! i)"
    using get_percentile_nearest_rank [OF assms(2), of data] False by (simp add: i_def n_def)
  moreover have "get_percentile data q = Inr (data ! j)"
    using get_percentile_nearest_rank [OF q0, of data] False by (simp add: j_def n_def)
  ultimately show ?thesis using le by simp
qed

theorem percentile_monotone_witness:
  "sorted [10, 20, 30, 40 :: real] \<and> (0::real) \<le> 50 \<and> (50::real) \<le> 95 \<and> (95::real) \<le> 100
   \<and> (\<exists>a b. get_percentile [10, 20, 30, 40] 50 = Inr a
          \<and> get_percentile [10, 20, 30, 40] 95 = Inr b \<and> a \<le> b)"
  using percentile_monotone [of "[10, 20, 30, 40]" 50 95]
  by simp

subsection \<open>Batch partition\<close>

lemma num_batches_bounds:
  assumes "0 < B"
  shows "(num_batches_of B V - 1) * B < V" and "V \<le> num_batches_of B V * B"
proof -
  define n where "n = (V + B - 1) div B"
  have m: "V + B - 1 = n * B + (V + B - 1) mod B"
    unfolding n_def by simp
  have r0: "0 \<le> (V + B - 1) mod B" and r1: "(V + B - 1) mod B < B"
    using assms by simp_all
  have "n * B - B < V" using m r0 by linarith
  then show "(num_batches_of B V - 1) * B < V"
    by (simp add: num_batches_of_def n_def algebra_simps)
  have "V \<le> n * B" using m r1 by linarith
  then show "V \<le> num_batches_of B V * B"
    by (simp add: num_batches_of_def n_def)
qed

lemma num_batches_ceiling:
  assumes "0 < B"
  shows "num_batches_of B V = \<lceil>real_of_int V / real_of_int B\<rceil>"
proof -
  define n where "n = num_batches_of B V"
  have Bp: "0 < real_of_int B" using assms by simp
  have "real_of_int ((n - 1) * B) < real_of_int V"
    using num_batches_bounds(1) [OF assms, of V] unfolding n_def by linarith
  then have lo: "real_of_int n - 1 < real_of_int V / real_of_int B"
    using Bp by (simp add: pos_less_divide_eq)
  have "real_of_int V \<le> real_of_int (n * B)"
    using num_batches_bounds(2) [OF assms, of V] unfolding n_def by linarith
  then have hi: "real_of_int V / real_of_int B \<le> real_of_int n"
    using Bp by (simp add: pos_divide_le_eq)
  show ?thesis using ceiling_unique [OF lo hi] by (simp add: n_def)
qed

lemma num_batches_nonneg:
  assumes "0 < B" and "0 \<le> V"
  shows "0 \<le> num_batches_of B V"
proof -
  have "0 \<le> V + B - 1" using assms by simp
  then show ?thesis unfolding num_batches_of_def using assms(1)
    by (simp add: pos_imp_zdiv_nonneg_iff)
qed

lemma requests_in_batch_range:
  assumes "0 < B" and "1 \<le> b" and "b \<le> num_batches_of B V"
  shows "0 < requests_in_batch_of B V b" and "requests_in_batch_of B V b \<le> B"
proof -
  have "(b - 1) * B \<le> (num_batches_of B V - 1) * B"
    using assms by (simp add: mult_right_mono)
  then have "(b - 1) * B < V"
    using num_batches_bounds(1) [OF assms(1), of V] by linarith
  then show "0 < requests_in_batch_of B V b"
    using assms(1) by (simp add: requests_in_batch_of_def)
  show "requests_in_batch_of B V b \<le> B"
    by (simp add: requests_in_batch_of_def)
qed

lemma batch_prefix_sum:
  assumes "0 < B" and "0 \<le> V" and "int k \<le> num_batches_of B V"
  shows "sum_list (map (requests_in_batch_of B V) [1..int k]) = min V (int k * B)"
  using assms(3)
proof (induction k)
  case 0
  then show ?case using assms(2) by simp
next
  case (Suc k)
  have k: "int k \<le> num_batches_of B V" using Suc.prems by simp
  have "int k * B \<le> (num_batches_of B V - 1) * B"
    using Suc.prems assms(1) by (simp add: mult_right_mono)
  then have lt: "int k * B < V"
    using num_batches_bounds(1) [OF assms(1), of V] by linarith
  have up: "[1..int (Suc k)] = [1..int k] @ [int k + 1]"
    using upto_rec2 [of 1 "int k + 1"] by (simp add: add.commute)
  have "sum_list (map (requests_in_batch_of B V) [1..int (Suc k)])
          = sum_list (map (requests_in_batch_of B V) [1..int k])
            + requests_in_batch_of B V (int k + 1)"
    unfolding up by simp
  also have "\<dots> = min V (int k * B) + requests_in_batch_of B V (int k + 1)"
    using Suc.IH [OF k] by simp
  also have "\<dots> = int k * B + min B (V - int k * B)"
    using lt by (simp add: requests_in_batch_of_def)
  also have "\<dots> = min V (int (Suc k) * B)"
    by (simp add: algebra_simps min_def)
  finally show ?case .
qed

lemma take_upto: "int k \<le> n \<Longrightarrow> take k [1..n] = [1..int k]"
proof (rule nth_equalityI)
  assume a: "int k \<le> n"
  show "length (take k [1..n]) = length [1..int k]" using a by simp
  fix i assume "i < length (take k [1..n])"
  then have "i < k" by simp
  then show "take k [1..n] ! i = [1..int k] ! i" using a by simp
qed

text \<open>
  C9. For every total request volume \<open>V \<ge> 0\<close> and batch size \<open>B > 0\<close>, the batch
  driver makes exactly \<open>ceil(V / B)\<close> batches, the request count of each batch is
  \<open>min(B, remaining)\<close>, where the remaining volume is \<open>V\<close> less the counts of the
  batches before it, each count is positive and at most \<open>B\<close>, and the counts sum
  to \<open>V\<close>.
\<close>

theorem batch_partition:
  assumes "0 \<le> V" and "0 < B"
  shows "int (length (batch_plan_of B V)) = \<lceil>real_of_int V / real_of_int B\<rceil>
       \<and> (\<forall>k < length (batch_plan_of B V).
             batch_plan_of B V ! k = min B (V - sum_list (take k (batch_plan_of B V))))
       \<and> (\<forall>n \<in> set (batch_plan_of B V). 0 < n \<and> n \<le> B)
       \<and> sum_list (batch_plan_of B V) = V"
proof -
  define nb where "nb = num_batches_of B V"
  have nb0: "0 \<le> nb" unfolding nb_def by (rule num_batches_nonneg [OF assms(2,1)])
  have len: "length (batch_plan_of B V) = nat nb"
    by (simp add: batch_plan_of_def nb_def)
  have c1: "int (length (batch_plan_of B V)) = \<lceil>real_of_int V / real_of_int B\<rceil>"
    using len nb0 num_batches_ceiling [OF assms(2), of V] by (simp add: nb_def)
  have c2: "batch_plan_of B V ! k = min B (V - sum_list (take k (batch_plan_of B V)))"
    if "k < length (batch_plan_of B V)" for k
  proof -
    have kn: "int k < nb" using that len by simp
    then have kle: "int k \<le> num_batches_of B V" by (simp add: nb_def)
    have "take k (batch_plan_of B V) = map (requests_in_batch_of B V) [1..int k]"
      using kle by (simp add: batch_plan_of_def take_map take_upto)
    then have s: "sum_list (take k (batch_plan_of B V)) = min V (int k * B)"
      using batch_prefix_sum [OF assms(2,1) kle] by simp
    have "int k * B \<le> (nb - 1) * B" using kn assms(2) by (simp add: mult_right_mono)
    then have "int k * B < V"
      using num_batches_bounds(1) [OF assms(2), of V] unfolding nb_def by linarith
    then have s': "sum_list (take k (batch_plan_of B V)) = int k * B" using s by simp
    have "batch_plan_of B V ! k = requests_in_batch_of B V (1 + int k)"
      using kn by (simp add: batch_plan_of_def nb_def)
    then show ?thesis by (simp add: s' requests_in_batch_of_def)
  qed
  have c3: "0 < n \<and> n \<le> B" if "n \<in> set (batch_plan_of B V)" for n
  proof -
    from that obtain b where b: "1 \<le> b" "b \<le> num_batches_of B V"
      and n: "n = requests_in_batch_of B V b"
      by (auto simp: batch_plan_of_def)
    show ?thesis using requests_in_batch_range [OF assms(2) b] n by simp
  qed
  have "sum_list (batch_plan_of B V) = min V (int (nat nb) * B)"
    using batch_prefix_sum [OF assms(2,1), of "nat nb"] nb0
    by (simp add: batch_plan_of_def nb_def)
  then have c4: "sum_list (batch_plan_of B V) = V"
    using num_batches_bounds(2) [OF assms(2), of V] nb0 by (simp add: nb_def)
  show ?thesis using c1 c2 c3 c4 by blast
qed

theorem batch_partition_witness:
  "(0::int) \<le> 12000 \<and> (0::int) < 5000
   \<and> batch_plan_of 5000 12000 = [5000, 5000, 2000]
   \<and> int (length (batch_plan_of 5000 12000)) = \<lceil>real_of_int 12000 / real_of_int 5000\<rceil>
   \<and> batch_plan_of 5000 12000 ! 2 = min 5000 (12000 - sum_list (take 2 (batch_plan_of 5000 12000)))
   \<and> sum_list (batch_plan_of 5000 12000) = 12000"
proof -
  have plan: "batch_plan_of 5000 12000 = [5000, 5000, 2000]"
    by (simp add: batch_plan_of_def num_batches_of_def requests_in_batch_of_def upto_rec1)
  show ?thesis
    using batch_partition [of 12000 5000] plan by simp
qed

subsection \<open>Resource monitor\<close>

lemma py_max_nonempty: "xs \<noteq> [] \<Longrightarrow> py_max xs = Inr (Max (set xs))"
  by (cases xs) (simp_all add: py_max_def Max.set_eq_fold del: set_simps)

lemma py_truediv_mean: "xs \<noteq> [] \<Longrightarrow>
    py_truediv (sum_list xs) (real (length xs)) = Inr (sum_list xs / real (length xs))"
  by (simp add: py_truediv_def)

lemma sample_enhanced_lengths:
  "length (cpu_samples m) = length (memory_samples m) \<Longrightarrow>
   length (cpu_samples (sample_enhanced r m)) = length (memory_samples (sample_enhanced r m))"
  by (simp add: sample_enhanced_def)

lemma sample_optimized_lengths:
  "length (cpu_samples m) = length (memory_samples m) \<Longrightarrow>
   length (cpu_samples (sample_optimized r m)) = length (memory_samples (sample_optimized r m))"
  by (simp add: sample_optimized_def)

lemma monitor_loop_enhanced_lengths:
  "length (cpu_samples m) = length (memory_samples m) \<Longrightarrow>
   length (cpu_samples (monitor_loop_enhanced rs m))
     = length (memory_samples (monitor_loop_enhanced rs m))"
  unfolding monitor_loop_enhanced_def
  by (induction rs arbitrary: m) (simp_all add: sample_enhanced_lengths)

lemma monitor_loop_optimized_lengths:
  "length (cpu_samples m) = length (memory_samples m) \<Longrightarrow>
   length (cpu_samples (monitor_loop_optimized rs m))
     = length (memory_samples (monitor_loop_optimized rs m))"
  unfolding monitor_loop_optimized_def
  by (induction rs arbitrary: m) (simp_all add: sample_optimized_lengths)

lemma monitor_loop_enhanced_samples:
  "cpu_samples (monitor_loop_enhanced rs m) = cpu_samples m @ map fst rs
   \<and> memory_samples (monitor_loop_enhanced rs m) = memory_samples m @ map snd rs"
  unfolding monitor_loop_enhanced_def
  by (induction rs arbitrary: m) (simp_all add: sample_enhanced_def)

lemma monitor_loop_optimized_samples:
  "cpu_samples (monitor_loop_optimized rs m)
     = cpu_samples m @ map fst (filter (\<lambda>r. fst r > 0) rs)
   \<and> memory_samples (monitor_loop_optimized rs m)
     = memory_samples m @ map snd (filter (\<lambda>r. fst r > 0) rs)"
  unfolding monitor_loop_optimized_def
  by (induction rs arbitrary: m) (simp_all add: sample_optimized_def)

lemma stop_summary:
  assumes "length (cpu_samples m) = length (memory_samples m)"
  shows "snd (stop m) =
     Inr (if cpu_samples m = []
          then \<lparr>avg_cpu = 0, peak_cpu = 0, avg_memory = 0, peak_memory = 0\<rparr>
          else \<lparr>avg_cpu = sum_list (cpu_samples m) / real (length (cpu_samples m)),
                peak_cpu = Max (set (cpu_samples m)),
                avg_memory = sum_list (memory_samples m) / real (length (memory_samples m)),
                peak_memory = Max (set (memory_samples m))\<rparr>)"
proof (cases "cpu_samples m = []")
  case True
  then show ?thesis by (simp add: stop_def)
next
  case False
  then have mem: "memory_samples m \<noteq> []" using assms by auto
  show ?thesis
    using False
    by (simp add: stop_def py_truediv_mean [OF False] py_truediv_mean [OF mem]
        py_max_nonempty [OF False] py_max_nonempty [OF mem])
qed

text \<open>
  C8. When \<open>stop()\<close> is called after zero samples were collected, it returns the
  summary with \<open>avg_cpu\<close>, \<open>peak_cpu\<close>, \<open>avg_memory\<close> and \<open>peak_memory\<close> all 0 and
  does not raise; with at least one sample, the summary is the arithmetic mean and
  the maximum of the collected CPU samples and of the collected memory samples.
  Stated for a monitor after any run of either sampling loop from a fresh object.
\<close>

theorem monitor_stop_summary:
  fixes readings :: "(real \<times> real) list"
  assumes "m = monitor_loop_enhanced readings (start (CPUMonitor i))
         \<or> m = monitor_loop_optimized readings (start (CPUMonitor i))"
  shows "(cpu_samples m = [] \<longrightarrow>
            snd (stop m) = Inr \<lparr>avg_cpu = 0, peak_cpu = 0, avg_memory = 0, peak_memory = 0\<rparr>)
       \<and> (cpu_samples m \<noteq> [] \<longrightarrow>
            snd (stop m) =
              Inr \<lparr>avg_cpu = sum_list (cpu_samples m) / real (length (cpu_samples m)),
                    peak_cpu = Max (set (cpu_samples m)),
                    avg_memory = sum_list (memory_samples m) / real (length (memory_samples m)),
                    peak_memory = Max (set (memory_samples m))\<rparr>)
       \<and> length (memory_samples m) = length (cpu_samples m)"
proof -
  have init: "length (cpu_samples (start (CPUMonitor i)))
                = length (memory_samples (start (CPUMonitor i)))"
    by (simp add: start_def CPUMonitor_def)
  have len: "length (cpu_samples m) = length (memory_samples m)"
    using assms monitor_loop_enhanced_lengths [OF init] monitor_loop_optimized_lengths [OF init]
    by auto
  show ?thesis using stop_summary [OF len] len by simp
qed

theorem monitor_stop_summary_witness:
  "snd (stop (monitor_loop_enhanced [] (start (CPUMonitor 2))))
     = Inr \<lparr>avg_cpu = 0, peak_cpu = 0, avg_memory = 0, peak_memory = 0\<rparr>
   \<and> snd (stop (monitor_loop_optimized [(0, 40), (30, 41), (50, 45)] (start (CPUMonitor 3))))
     = Inr \<lparr>avg_cpu = 40, peak_cpu = 50, avg_memory = 43, peak_memory = 45\<rparr>"
proof -
  have e: "cpu_samples (monitor_loop_enhanced [] (start (CPUMonitor 2))) = []"
    by (simp add: monitor_loop_enhanced_def start_def CPUMonitor_def)
  have oc: "cpu_samples (monitor_loop_optimized [(0, 40), (30, 41), (50, 45)] (start (CPUMonitor 3)))
              = [30, 50]"
    by (simp add: monitor_loop_optimized_def sample_optimized_def start_def CPUMonitor_def)
  have om: "memory_samples (monitor_loop_optimized [(0, 40), (30, 41), (50, 45)] (start (CPUMonitor 3)))
              = [41, 45]"
    by (simp add: monitor_loop_optimized_def sample_optimized_def start_def CPUMonitor_def)
  show ?thesis
    using monitor_stop_summary [OF disjI1 [OF refl], where readings = "[]" and i = 2]
      monitor_stop_summary [OF disjI2 [OF refl],
        where readings = "[(0, 40), (30, 41), (50, 45)]" and i = 3]
    by (simp add: e oc om)
qed

subsection \<open>Request executors\<close>

text \<open>
  C4, as stated, fails on \<open>fixed_benchmark.py\<close> (and on
  \<open>investigate_degradation.py\<close>): a request that times out two seconds after its
  dispatch is recorded with latency 0, not with the 2000 ms that elapsed.
\<close>

theorem fixed_failure_latency_zero:
  "make_request_fixed (1, 3, TimeoutError) = Inr (0, False)
   \<and> make_request_fixed (1, 3, TimeoutError) \<noteq> Inr ((3 - 1) * 1000, False)"
  by simp

text \<open>
  C4, amended. For every request whose transport fails (timeout or any other
  exception), every request executor returns a failure outcome without raising. The
  executors of \<open>optimized_benchmark.py\<close> and \<open>enhanced_benchmark.py\<close> record the
  elapsed time from dispatch to the failure point, in milliseconds, which is positive
  when the clock has advanced; the executors of \<open>fixed_benchmark.py\<close> and
  \<open>investigate_degradation.py\<close> record the latency 0.
\<close>

theorem transport_failure_outcome:
  assumes "transport_failed tr"
  shows "process_request (t0, t1, tr) = Inr ((t1 - t0) * 1000, False)
       \<and> make_request_enhanced (t0, t1, tr) = Inr ((t1 - t0) * 1000, False)
       \<and> (t0 < t1 \<longrightarrow> 0 < (t1 - t0) * 1000)
       \<and> make_request_fixed (t0, t1, tr) = Inr (0, False)
       \<and> (\<exists>e. make_request_wave (t0, t1, tr) = Inr (0, False, Some e))"
  using assms by (cases tr) simp_all

theorem transport_failure_outcome_witness:
  "transport_failed TimeoutError
   \<and> process_request (1, 3, TimeoutError) = Inr (2000, False)
   \<and> make_request_enhanced (1, 3, OtherException ''reset'') = Inr (2000, False)
   \<and> make_request_fixed (1, 3, TimeoutError) = Inr (0, False)
   \<and> make_request_wave (1, 3, TimeoutError) = Inr (0, False, Some ''timeout'')"
  using transport_failure_outcome [of TimeoutError 1 3]
  by simp

subsection \<open>Accounting of request outcomes\<close>

lemma for_range_count:
  fixes f :: "'s \<Rightarrow> nat"
  assumes "0 < c"
    and "\<And>i s. i < n \<Longrightarrow> f (body i s) = f s + nat (min c (n - i))"
  shows "f (for_range i n c body s) = f s + nat (n - i)"
  using assms
proof (induction i n c body s rule: for_range.induct)
  case (1 i n step body s)
  show ?case
  proof (cases "i < n")
    case True
    have "f (for_range i n step body s) = f (for_range (i + step) n step body (body i s))"
      using True "1.prems"(1) by (simp add: for_range.simps [of i])
    also have "\<dots> = f (body i s) + nat (n - (i + step))"
      using "1.IH" True "1.prems" by simp
    also have "\<dots> = f s + nat (min step (n - i)) + nat (n - (i + step))"
      using "1.prems"(2) [OF True] by simp
    also have "\<dots> = f s + nat (n - i)"
      using True "1.prems"(1) by (simp add: min_def nat_add_distrib [symmetric])
    finally show ?thesis .
  next
    case False
    then show ?thesis by (simp add: for_range.simps [of i])
  qed
qed

lemma record_result_enhanced_step:
  "accounted (record_result_enhanced r st) = accounted st + 1"
  by (cases "(r, st)" rule: record_result_enhanced.cases) (simp_all add: accounted_def)

lemma record_result_fixed_step:
  "accounted (record_result_fixed r st) = accounted st + 1"
  by (cases "(r, st)" rule: record_result_fixed.cases) (simp_all add: accounted_def)

lemma fold_record_enhanced:
  "accounted (fold record_result_enhanced rs st) = accounted st + length rs"
  by (induction rs arbitrary: st) (simp_all add: record_result_enhanced_step)

lemma fold_record_fixed:
  "accounted (fold record_result_fixed rs st) = accounted st + length rs"
  by (induction rs arbitrary: st) (simp_all add: record_result_fixed_step)

lemma process_with_stats_step:
  "\<exists>st'. process_with_stats x st = Inr st' \<and> accounted st' = accounted st + 1
     \<and> ((successes st' = successes st + 1 \<and> failures st' = failures st)
        \<or> (successes st' = successes st \<and> failures st' = failures st + 1))"
  by (cases x rule: process_request.cases)
    (simp_all add: process_with_stats_def bind_err_def accounted_def)

lemma gather_with_stats_count:
  "accounted (gather_with_stats xs st) = accounted st + length xs"
proof (induction xs arbitrary: st)
  case Nil
  then show ?case by (simp add: gather_with_stats_def)
next
  case (Cons x xs)
  obtain st' where s: "process_with_stats x st = Inr st'" "accounted st' = accounted st + 1"
    using process_with_stats_step by blast
  have "gather_with_stats (x # xs) st = gather_with_stats xs st'"
    using s(1) by (simp add: gather_with_stats_def)
  then show ?case using Cons.IH [of st'] s(2) by simp
qed

lemma batch_body_enhanced_count:
  "accounted (batch_body_enhanced net timed_out n c i st) = accounted st + nat (min c (n - i))"
  by (simp add: batch_body_enhanced_def Let_def fold_record_enhanced)

lemma chunk_body_fixed_count:
  "accounted (chunk_body_fixed net n c i st) = accounted st + nat (min c (n - i))"
  by (simp add: chunk_body_fixed_def Let_def fold_record_fixed)

lemma enhanced_loop_count:
  assumes "0 < c"
  shows "accounted (for_range 0 n c (batch_body_enhanced net timed_out n c) no_stats) = nat n"
proof -
  have "accounted (for_range 0 n c (batch_body_enhanced net timed_out n c) no_stats)
          = accounted no_stats + nat (n - 0)"
    by (rule for_range_count [OF assms]) (rule batch_body_enhanced_count)
  moreover have "accounted no_stats = 0" by (simp add: accounted_def no_stats_def)
  ultimately show ?thesis by simp
qed

lemma fixed_loop_count:
  assumes "0 < n"
  shows "accounted (for_range 0 n (min 500 n) (chunk_body_fixed net n (min 500 n)) no_stats)
           = nat n"
proof -
  have pos: "0 < min 500 n" using assms by simp
  have "accounted (for_range 0 n (min 500 n) (chunk_body_fixed net n (min 500 n)) no_stats)
          = accounted no_stats + nat (n - 0)"
    by (rule for_range_count [OF pos]) (rule chunk_body_fixed_count)
  moreover have "accounted no_stats = 0" by (simp add: accounted_def no_stats_def)
  ultimately show ?thesis by simp
qed

subsection \<open>The reports do not raise\<close>

lemma py_min_nonempty: "xs \<noteq> [] \<Longrightarrow> \<exists>v. py_min xs = Inr v"
  by (cases xs) (simp_all add: py_min_def)

lemma get_percentile_returns: "0 \<le> p \<Longrightarrow> \<exists>v. get_percentile xs p = Inr v"
  using get_percentile_nearest_rank [of p xs] by simp

lemma summarize_latencies_returns: "\<exists>l. summarize_latencies lats = Inr l"
proof -
  obtain q50 q95 q99 where q: "get_percentile lats 50 = Inr q50"
    "get_percentile lats 95 = Inr q95" "get_percentile lats 99 = Inr q99"
    using get_percentile_returns [of 50 lats] get_percentile_returns [of 95 lats]
      get_percentile_returns [of 99 lats] by auto
  show ?thesis
  proof (cases "lats = []")
    case True
    then show ?thesis using q by (simp add: summarize_latencies_def bind_err_def)
  next
    case False
    obtain mn where mn: "py_min lats = Inr mn" using py_min_nonempty [OF False] by blast
    show ?thesis
      using False q mn
      by (simp add: summarize_latencies_def bind_err_def py_truediv_mean py_max_nonempty)
  qed
qed

lemma benchmark_report_returns:
  assumes "length (cpu_samples m) = length (memory_samples m)"
  shows "\<exists>r. benchmark_report N t m st = Inr r
           \<and> total_time (performance r) = t
           \<and> throughput (performance r) = (if t > 0 then real_of_int N / t else 0)
           \<and> success_rate (performance r)
               = (if N > 0 then real (successes st) / real_of_int N * 100 else 0)
           \<and> total_requests (performance r) = N
           \<and> successful (performance r) = successes st
           \<and> failed (performance r) = failures st"
proof -
  obtain cs where cs: "snd (stop m) = Inr cs" using stop_summary [OF assms] by simp
  obtain l where l: "summarize_latencies (sort (latencies st)) = Inr l"
    using summarize_latencies_returns by blast
  show ?thesis
    using cs l by (simp add: benchmark_report_def bind_err_def Let_def py_truediv_def)
qed

lemma p99_index_in_range:
  assumes "xs \<noteq> []"
  shows "\<exists>v. py_index xs (py_int (real (length xs) * 0.99)) = Inr v"
proof -
  define n where "n = length xs"
  have n0: "0 < n" using assms by (simp add: n_def)
  have lo: "0 \<le> \<lfloor>real n * 0.99\<rfloor>" by simp
  have "real n * 0.99 < real n" using n0 by simp
  then have hi: "\<lfloor>real n * 0.99\<rfloor> < int n" by (simp add: floor_less_iff)
  have "py_int (real n * 0.99) = \<lfloor>real n * 0.99\<rfloor>" by (simp add: py_int_nonneg)
  then show ?thesis
    using py_index_in_range [OF lo, of xs] hi by (simp add: n_def)
qed

lemma run_batch_returns:
  assumes "0 < N" and "0 \<le> c"
  shows "\<exists>r. run_batch b N c net t = Inr r
           \<and> batch_throughput r = (if t > 0 then real (batch_successful r) / t else 0)
           \<and> batch_success_rate r = real (batch_successful r) / real_of_int N * 100
           \<and> batch_total_requests r = N
           \<and> duration r = t
           \<and> batch_successful r + batch_failed r = nat N
           \<and> batch_successful r
               = successes (for_range 0 N (min 500 N) (chunk_body_fixed net N (min 500 N))
                             no_stats)"
proof -
  define st where
    "st = for_range 0 N (min 500 N) (chunk_body_fixed net N (min 500 N)) no_stats"
  define lats where "lats = sort (latencies st)"
  have cnt: "successes st + failures st = nat N"
    using fixed_loop_count [OF assms(1), of net] by (simp add: st_def accounted_def)
  obtain q99 where q99: "(if lats \<noteq> [] then py_index lats (py_int (real (length lats) * 0.99))
                           else Inr 0) = Inr q99"
    using p99_index_in_range [of lats] by (cases "lats = []") auto
  have av: "(if lats \<noteq> [] then py_truediv (sum_list lats) (real (length lats)) else Inr 0)
              = Inr (if lats \<noteq> [] then sum_list lats / real (length lats) else 0)"
    by (simp add: py_truediv_mean)
  have c0: "\<not> c < 0" and m0: "min 500 N \<noteq> 0" using assms by simp_all
  have "run_batch b N c net t =
          Inr \<lparr>batch = b,
               batch_throughput = (if t > 0 then real (successes st) / t else 0),
               batch_success_rate = real (successes st) / real_of_int N * 100,
               batch_total_requests = N, batch_successful = successes st,
               batch_failed = failures st,
               avg_latency = (if lats \<noteq> [] then sum_list lats / real (length lats) else 0),
               p99_latency = q99, duration = t\<rparr>"
    unfolding run_batch_def Let_def st_def [symmetric] lats_def [symmetric]
    using c0 m0 assms(1) q99 av
    by (simp add: bind_err_def py_truediv_def)
  then show ?thesis using cnt by (simp add: st_def)
qed

lemma gather_all_wave: "\<exists>rs. gather_all (map (\<lambda>k. make_request_wave (net k)) ks) = Inr rs"
proof (induction ks)
  case Nil
  then show ?case by simp
next
  case (Cons k ks)
  obtain v where "make_request_wave (net k) = Inr v"
    by (cases "net k" rule: make_request_wave.cases) simp_all
  then show ?case using Cons by (auto simp: bind_err_def)
qed

lemma run_wave_returns:
  assumes "0 < N" and "0 \<le> c"
  shows "\<exists>w. run_wave k N c net t cb ca mem = Inr w
           \<and> wave_throughput w = (if t > 0 then real (wave_successful w) / t else 0)"
proof -
  obtain rs where rs: "gather_all (map (\<lambda>k. make_request_wave (net k)) [0..<nat N]) = Inr rs"
    using gather_all_wave by blast
  obtain n_ok lats errs where f: "fold tally_wave rs (0, [], []) = (n_ok, lats, errs)"
    by (cases "fold tally_wave rs (0, [], [])") auto
  obtain q99 where q99: "(if lats \<noteq> [] then py_index (sort lats) (py_int (real (length lats) * 0.99))
                           else Inr 0) = Inr q99"
  proof (cases "lats = []")
    case True
    then show ?thesis using that by simp
  next
    case False
    then have "sort lats \<noteq> []" by (metis length_sort length_0_conv)
    then show ?thesis using p99_index_in_range [of "sort lats"] False that by auto
  qed
  have av: "(if lats \<noteq> [] then py_truediv (sum_list lats) (real (length lats)) else Inr 0)
              = Inr (if lats \<noteq> [] then sum_list lats / real (length lats) else 0)"
    by (simp add: py_truediv_mean)
  have c0: "\<not> c < 0" using assms by simp
  show ?thesis
    unfolding run_wave_def Let_def
    using c0 rs f q99 av assms(1)
    by (simp add: bind_err_def py_truediv_def)
qed

subsection \<open>Accounting and throughput of the runs\<close>

lemma run_optimized_returns:
  assumes "0 \<le> N" and "0 < c" and "length (cpu_samples m) = length (memory_samples m)"
  shows "\<exists>r. run_benchmark_test_optimized N c net t m = Inr r
           \<and> throughput (performance r) = (if t > 0 then real_of_int N / t else 0)
           \<and> int (successful (performance r) + failed (performance r)) = N"
proof -
  define st where "st = gather_with_stats (map net [0..<nat N]) no_stats"
  have "accounted st = accounted no_stats + length (map net [0..<nat N])"
    unfolding st_def by (rule gather_with_stats_count)
  then have cnt: "int (successes st + failures st) = N"
    using assms(1) by (simp add: accounted_def no_stats_def)
  obtain r where r: "benchmark_report N t m st = Inr r"
    "throughput (performance r) = (if t > 0 then real_of_int N / t else 0)"
    "successful (performance r) = successes st" "failed (performance r) = failures st"
    using benchmark_report_returns [OF assms(3), of N t st] by blast
  have "min c 100 \<noteq> 0" using assms(2) by simp
  then have "run_benchmark_test_optimized N c net t m = benchmark_report N t m st"
    using assms(2) by (simp add: run_benchmark_test_optimized_def st_def Let_def)
  then show ?thesis using r cnt by simp
qed

lemma run_enhanced_returns:
  assumes "0 \<le> N" and "0 < c" and "length (cpu_samples m) = length (memory_samples m)"
  shows "\<exists>r. run_benchmark_test_enhanced N c net timed_out t m = Inr r
           \<and> throughput (performance r) = (if t > 0 then real_of_int N / t else 0)
           \<and> int (successful (performance r) + failed (performance r)) = N"
proof -
  define st where
    "st = for_range 0 N c (batch_body_enhanced net timed_out N c) no_stats"
  have cnt: "int (successes st + failures st) = N"
    using enhanced_loop_count [OF assms(2), of N net timed_out] assms(1)
    by (simp add: st_def accounted_def)
  obtain r where r: "benchmark_report N t m st = Inr r"
    "throughput (performance r) = (if t > 0 then real_of_int N / t else 0)"
    "successful (performance r) = successes st" "failed (performance r) = failures st"
    using benchmark_report_returns [OF assms(3), of N t st] by blast
  have "run_benchmark_test_enhanced N c net timed_out t m = benchmark_report N t m st"
    using assms(2) by (simp add: run_benchmark_test_enhanced_def st_def)
  then show ?thesis using r cnt by simp
qed

lemma record_result_enhanced_once: "counts_once st (record_result_enhanced r st)"
  by (cases "(r, st)" rule: record_result_enhanced.cases) (simp_all add: counts_once_def)

lemma record_result_fixed_once: "counts_once st (record_result_fixed r st)"
  by (cases "(r, st)" rule: record_result_fixed.cases) (simp_all add: counts_once_def)

lemma process_with_stats_once:
  "\<exists>st'. process_with_stats x st = Inr st' \<and> counts_once st st'"
  using process_with_stats_step [of x st] by (auto simp: counts_once_def)

text \<open>
  C2. For every completed batch of \<open>N\<close> dispatched requests, the recorded successful
  count plus the recorded failed count is \<open>N\<close>, in the run of
  \<open>optimized_benchmark.py\<close>, in the run of \<open>enhanced_benchmark.py\<close> (whatever batches
  hit the batch timeout) and in \<open>run_batch\<close> of \<open>fixed_benchmark.py\<close>; and each
  request outcome (success, failure, exception) moves exactly one of the two
  counters, by one. The runs return (they do not raise) for a positive concurrency
  and a monitor whose two sample lists have the same length.
\<close>

theorem batch_accounting:
  assumes "0 \<le> N" and "0 < c" and "length (cpu_samples m) = length (memory_samples m)"
  shows "(\<exists>r. run_benchmark_test_optimized N c net t m = Inr r
             \<and> int (successful (performance r) + failed (performance r)) = N)
       \<and> (\<exists>r. run_benchmark_test_enhanced N c net timed_out t m = Inr r
             \<and> int (successful (performance r) + failed (performance r)) = N)
       \<and> (0 < N \<longrightarrow> (\<exists>r. run_batch b N c net t = Inr r
             \<and> int (batch_successful r + batch_failed r) = N))
       \<and> (\<exists>st'. process_with_stats x st = Inr st' \<and> counts_once st st')
       \<and> counts_once st (record_result_enhanced res st)
       \<and> counts_once st (record_result_fixed res st)"
proof -
  have c0: "0 \<le> c" using assms(2) by simp
  have fixed: "\<exists>r. run_batch b N c net t = Inr r
                 \<and> int (batch_successful r + batch_failed r) = N" if "0 < N"
    using run_batch_returns [OF that c0, of b net t] that by auto
  show ?thesis
    using run_optimized_returns [OF assms, of net t]
      run_enhanced_returns [OF assms, of net timed_out t]
      fixed process_with_stats_once [of x st]
      record_result_enhanced_once [of st res] record_result_fixed_once [of st res]
    by blast
qed

theorem batch_accounting_witness:
  "(0::int) \<le> 3 \<and> (0::int) < 2
   \<and> length (cpu_samples (CPUMonitor 3)) = length (memory_samples (CPUMonitor 3))
   \<and> (\<exists>r. run_benchmark_test_optimized 3 2 (\<lambda>k. (0, 1, Responded 200)) 1 (CPUMonitor 3) = Inr r
          \<and> int (successful (performance r) + failed (performance r)) = 3)
   \<and> (\<exists>r. run_benchmark_test_enhanced 3 2 (\<lambda>k. (0, 1, TimeoutError)) (\<lambda>i. i = 2) 1
            (CPUMonitor 3) = Inr r
          \<and> int (successful (performance r) + failed (performance r)) = 3)
   \<and> (\<exists>r. run_batch 1 3 2 (\<lambda>k. (0, 1, Responded 500)) 1 = Inr r
          \<and> int (batch_successful r + batch_failed r) = 3)"
proof -
  have m: "length (cpu_samples (CPUMonitor 3)) = length (memory_samples (CPUMonitor 3))"
    by (simp add: CPUMonitor_def)
  have n: "(0::int) \<le> 3" and c: "(0::int) < 2" by simp_all
  show ?thesis
    using batch_accounting [OF n c m, of "\<lambda>k. (0, 1, Responded 200)" 1]
      batch_accounting [OF n c m, of "\<lambda>k. (0, 1, TimeoutError)" 1 "\<lambda>i. i = 2"]
      batch_accounting [OF n c m, of "\<lambda>k. (0, 1, Responded 500)" 1 _ 1]
      m
    by simp
qed

text \<open>
  C3, as stated, fails on \<open>optimized_benchmark.py\<close> (and \<open>enhanced_benchmark.py\<close>):
  of two requests in one second, one answered with status 200 and one timed out, the
  run reports the throughput 2, the number of dispatched requests per second, while
  one request succeeded.
\<close>

theorem optimized_throughput_counts_dispatched:
  "map_sum id performance
     (run_benchmark_test_optimized 2 8 ((!) [(0, 1, Responded 200), (0, 1, TimeoutError)]) 1
        (CPUMonitor 3))
     = Inr \<lparr>total_time = 1, throughput = 2, success_rate = 50, total_requests = 2,
            successful = 1, failed = 1\<rparr>
   \<and> (2::real) \<noteq> real 1 / 1"
proof -
  have r: "[0..<nat 2] = [0, 1]" by (simp add: upt_rec)
  have g: "gather_with_stats (map ((!) [(0, 1, Responded 200), (0, 1, TimeoutError)]) [0, 1])
             no_stats
           = \<lparr>latencies = [1000, 1000], successes = 1, failures = 1\<rparr>"
    by (simp add: gather_with_stats_def process_with_stats_def bind_err_def no_stats_def)
  have s: "snd (stop (CPUMonitor 3))
             = Inr \<lparr>avg_cpu = 0, peak_cpu = 0, avg_memory = 0, peak_memory = 0\<rparr>"
    by (simp add: stop_def CPUMonitor_def)
  obtain l where l: "summarize_latencies (sort [1000, 1000]) = Inr l"
    using summarize_latencies_returns by blast
  show ?thesis
    unfolding run_benchmark_test_optimized_def benchmark_report_def r g
    using s l
    by (simp add: bind_err_def Let_def py_truediv_def)
qed

text \<open>
  C3, amended. For every completed batch, \<open>run_batch\<close> of \<open>fixed_benchmark.py\<close> and
  \<open>run_wave\<close> of \<open>investigate_degradation.py\<close> report as throughput the number of
  successful requests divided by the batch duration, and 0 when the duration is not
  positive; \<open>run_benchmark_test\<close> of \<open>optimized_benchmark.py\<close> and of
  \<open>enhanced_benchmark.py\<close> report the number of dispatched requests divided by the
  total time, and 0 when the total time is not positive.
\<close>

theorem throughput_by_variant:
  assumes "0 < N" and "0 < c" and "length (cpu_samples m) = length (memory_samples m)"
  shows "(\<exists>r. run_batch b N c net t = Inr r
             \<and> batch_throughput r = (if t > 0 then real (batch_successful r) / t else 0))
       \<and> (\<exists>w. run_wave k N c net t conn_before conn_after mem = Inr w
             \<and> wave_throughput w = (if t > 0 then real (wave_successful w) / t else 0))
       \<and> (\<exists>r. run_benchmark_test_optimized N c net t m = Inr r
             \<and> throughput (performance r) = (if t > 0 then real_of_int N / t else 0))
       \<and> (\<exists>r. run_benchmark_test_enhanced N c net timed_out t m = Inr r
             \<and> throughput (performance r) = (if t > 0 then real_of_int N / t else 0))"
proof -
  have c0: "0 \<le> c" and n0: "0 \<le> N" using assms by simp_all
  show ?thesis
    using run_batch_returns [OF assms(1) c0, of b net t]
      run_wave_returns [OF assms(1) c0, of k net t conn_before conn_after mem]
      run_optimized_returns [OF n0 assms(2,3), of net t]
      run_enhanced_returns [OF n0 assms(2,3), of net timed_out t]
    by blast
qed

theorem throughput_by_variant_witness:
  "(0::int) < 3 \<and> (0::int) < 2
   \<and> (\<exists>r. run_batch 1 3 2 (\<lambda>k. (0, 1, Responded 200)) 0 = Inr r
          \<and> batch_throughput r = 0)
   \<and> (\<exists>w. run_wave 1 3 2 (\<lambda>k. (0, 1, Responded 200)) 2 None None 100 = Inr w
          \<and> wave_throughput w = real (wave_successful w) / 2)
   \<and> (\<exists>r. run_benchmark_test_optimized 3 2 (\<lambda>k. (0, 1, TimeoutError)) 2 (CPUMonitor 3) = Inr r
          \<and> throughput (performance r) = 3 / 2)"
proof -
  have m: "length (cpu_samples (CPUMonitor 3)) = length (memory_samples (CPUMonitor 3))"
    by (simp add: CPUMonitor_def)
  have n: "(0::int) < 3" and c: "(0::int) < 2" by simp_all
  show ?thesis
    using throughput_by_variant [OF n c m, of 1 "\<lambda>k. (0, 1, Responded 200)" 0]
      throughput_by_variant [OF n c m, of _ "\<lambda>k. (0, 1, Responded 200)" 2 1 None None 100]
      throughput_by_variant [OF n c m, of _ "\<lambda>k. (0, 1, TimeoutError)" 2]
    by simp
qed

subsection \<open>Rates of the whole run of \<open>fixed_benchmark.py\<close>\<close>

text \<open>
  C6. The claim asks that no rate computation divides by zero, also for a run with
  zero requests. \<open>run_benchmark\<close> of \<open>fixed_benchmark.py\<close> computes its
  \<open>success_rate\<close> as \<open>cumulative_successes / cumulative_requests * 100\<close> with no test of
  the divisor: on a volume of zero requests no batch runs, \<open>cumulative_requests\<close> is 0
  and the run ends with \<open>ZeroDivisionError\<close>, whatever the network and the clock do.
\<close>

theorem run_benchmark_zero_volume_raises:
  "run_benchmark 0 concurrent net durations = Inl ZeroDivisionError"
  by (simp add: run_benchmark_def num_batches_of_def batch_size_def bind_err_def
      py_truediv_def)

subsection \<open>Degradation analysis\<close>

lemma analyze_degradation_returns:
  assumes "2 \<le> length metrics" and "0 < wave_throughput (hd metrics)"
  shows "analyze_degradation metrics =
     Inr (Some
       \<lparr>degradation_pct =
          (wave_throughput (hd metrics) - wave_throughput (last metrics))
            / wave_throughput (hd metrics) * 100,
        first_throughput = wave_throughput (hd metrics),
        last_throughput = wave_throughput (last metrics),
        issues =
          (if (wave_throughput (hd metrics) - wave_throughput (last metrics))
                / wave_throughput (hd metrics) * 100 > 20
           then [SignificantDegradation]
                @ (if memory_mb (last metrics) - memory_mb (hd metrics) > 100
                   then [MemoryLeakSuspected] else [])
                @ (if total_connections metrics \<noteq> []
                      \<and> last (total_connections metrics) - hd (total_connections metrics) > 100
                   then [ConnectionLeak] else [])
                @ (if time_wait_connections metrics \<noteq> []
                      \<and> last (time_wait_connections metrics) > 1000
                   then [TimeWaitAccumulation] else [])
                @ (if (wave_throughput (hd metrics)
                        - wave_throughput (metrics ! (length metrics div 2)))
                       / wave_throughput (hd metrics) > 0.1
                   then [GradualDegradation] else [SuddenDegradation])
           else [])\<rparr>)"
proof -
  define f where "f = wave_throughput (hd metrics)"
  define l where "l = wave_throughput (last metrics)"
  define md where "md = wave_throughput (metrics ! (length metrics div 2))"
  have ne: "metrics \<noteq> []" using assms(1) by auto
  have h: "hd (map wave_throughput metrics) = f"
    "last (map wave_throughput metrics) = l"
    "hd (map memory_mb metrics) = memory_mb (hd metrics)"
    "last (map memory_mb metrics) = memory_mb (last metrics)"
    using ne by (simp_all add: hd_map last_map f_def l_def)
  have mid: "map wave_throughput metrics ! (length (map wave_throughput metrics) div 2) = md"
    using assms(1) by (simp add: nth_map md_def)
  have nz: "f \<noteq> 0" using assms(2) by (simp add: f_def)
  have q1: "py_truediv (f - l) f = Inr ((f - l) / f)"
    and q2: "py_truediv (f - md) f = Inr ((f - md) / f)"
    using nz by (simp_all add: py_truediv_def)
  have l2: "(length metrics < 2) = False" using assms(1) by simp
  show ?thesis
  proof (cases "20 < (f - l) / f * 100")
    case True
    show ?thesis
      unfolding analyze_degradation_def Let_def h mid q1 q2 bind_err_def l2
        f_def [symmetric] l_def [symmetric] md_def [symmetric]
      by (simp only: True if_True if_False sum.case)
  next
    case False
    show ?thesis
      unfolding analyze_degradation_def Let_def h mid q1 q2 bind_err_def l2
        f_def [symmetric] l_def [symmetric] md_def [symmetric]
      by (simp only: False if_False sum.case)
  qed
qed

text \<open>
  C5. For every ordered sequence of at least two wave metrics whose first throughput
  is positive, the analyzer computes
  \<open>degradation_pct = (first - last) / first * 100\<close> over the throughputs of the first
  and the last wave, and reports significant degradation exactly when
  \<open>degradation_pct > 20\<close>; in that case it also reports a suspected memory leak exactly
  when the memory grew by more than 100 MB from the first wave to the last, a
  connection leak exactly when the total connection count grew by more than 100 from
  the first to the last wave whose counts could be read, port exhaustion risk exactly
  when the last TIME_WAIT count read is above 1000, and gradual rather than sudden
  degradation exactly when the throughput of the middle wave dropped by more than 10%
  of the first. In particular, first throughput 1000, last 700, memory growth 150 and
  connection growth 50 give significant degradation and memory leak suspected, and
  not connection leak.
\<close>

theorem degradation_classification:
  assumes "2 \<le> length metrics" and "0 < wave_throughput (hd metrics)"
  shows "\<exists>a. analyze_degradation metrics = Inr (Some a)
     \<and> degradation_pct a
         = (wave_throughput (hd metrics) - wave_throughput (last metrics))
             / wave_throughput (hd metrics) * 100
     \<and> (SignificantDegradation \<in> set (issues a) \<longleftrightarrow> degradation_pct a > 20)
     \<and> (MemoryLeakSuspected \<in> set (issues a) \<longleftrightarrow>
           degradation_pct a > 20 \<and> memory_mb (last metrics) - memory_mb (hd metrics) > 100)
     \<and> (ConnectionLeak \<in> set (issues a) \<longleftrightarrow>
           degradation_pct a > 20 \<and> total_connections metrics \<noteq> []
           \<and> last (total_connections metrics) - hd (total_connections metrics) > 100)
     \<and> (TimeWaitAccumulation \<in> set (issues a) \<longleftrightarrow>
           degradation_pct a > 20 \<and> time_wait_connections metrics \<noteq> []
           \<and> last (time_wait_connections metrics) > 1000)
     \<and> (GradualDegradation \<in> set (issues a) \<longleftrightarrow>
           degradation_pct a > 20
           \<and> (wave_throughput (hd metrics) - wave_throughput (metrics ! (length metrics div 2)))
                / wave_throughput (hd metrics) > 0.1)
     \<and> (SuddenDegradation \<in> set (issues a) \<longleftrightarrow>
           degradation_pct a > 20
           \<and> \<not> (wave_throughput (hd metrics) - wave_throughput (metrics ! (length metrics div 2)))
                  / wave_throughput (hd metrics) > 0.1)
     \<and> (wave_throughput (hd metrics) = 1000 \<and> wave_throughput (last metrics) = 700
          \<and> memory_mb (last metrics) - memory_mb (hd metrics) = 150
          \<and> last (total_connections metrics) - hd (total_connections metrics) = 50
          \<longrightarrow> SignificantDegradation \<in> set (issues a)
              \<and> MemoryLeakSuspected \<in> set (issues a)
              \<and> ConnectionLeak \<notin> set (issues a))"
proof -
  note r = analyze_degradation_returns [OF assms]
  show ?thesis by (simp add: r)
qed

theorem degradation_classification_witness:
  "(2::nat) \<le> length
       (map (\<lambda>(n, tp, mem, tot).
               \<lparr>wave = n, wave_throughput = tp, wave_successful = 900, wave_failed = 100,
                wave_avg_latency = 20, wave_p99_latency = 80, memory_mb = mem,
                connections_before = None,
                connections_after = Some \<lparr>conn_total = tot, time_wait = 7, established = 3,
                                           close_wait = 0, fin_wait = 0\<rparr>,
                connection_growth = tot, errors = []\<rparr>)
          [(1, 1000, 200, 10), (2, 950, 300, 40), (3, 700, 350, 60)])
   \<and> (\<exists>a. analyze_degradation
          (map (\<lambda>(n, tp, mem, tot).
               \<lparr>wave = n, wave_throughput = tp, wave_successful = 900, wave_failed = 100,
                wave_avg_latency = 20, wave_p99_latency = 80, memory_mb = mem,
                connections_before = None,
                connections_after = Some \<lparr>conn_total = tot, time_wait = 7, established = 3,
                                           close_wait = 0, fin_wait = 0\<rparr>,
                connection_growth = tot, errors = []\<rparr>)
          [(1, 1000, 200, 10), (2, 950, 300, 40), (3, 700, 350, 60)]) = Inr (Some a)
        \<and> degradation_pct a = 30
        \<and> SignificantDegradation \<in> set (issues a)
        \<and> MemoryLeakSuspected \<in> set (issues a)
        \<and> ConnectionLeak \<notin> set (issues a)
        \<and> SuddenDegradation \<in> set (issues a))"
proof -
  define ms where "ms =
     map (\<lambda>(n, tp, mem, tot).
               \<lparr>wave = n, wave_throughput = tp, wave_successful = 900, wave_failed = 100,
                wave_avg_latency = 20, wave_p99_latency = 80, memory_mb = mem,
                connections_before = None,
                connections_after = Some \<lparr>conn_total = tot, time_wait = 7, established = 3,
                                           close_wait = 0, fin_wait = 0\<rparr>,
                connection_growth = tot, errors = []\<rparr>)
          [(1, 1000, 200, 10), (2, 950, 300, 40), (3::int, 700::real, 350::real, 60::int)]"
  have len: "2 \<le> length ms" by (simp add: ms_def)
  have e1: "wave_throughput (hd ms) = 1000" and e2: "wave_throughput (last ms) = 700"
    and e3: "memory_mb (last ms) - memory_mb (hd ms) = 150"
    and e4: "last (total_connections ms) - hd (total_connections ms) = 50"
    and e5: "wave_throughput (ms ! (length ms div 2)) = 950"
    by (simp_all add: ms_def total_connections_def)
  have pos: "0 < wave_throughput (hd ms)" using e1 by simp
  obtain a where a: "analyze_degradation ms = Inr (Some a)"
    "degradation_pct a
       = (wave_throughput (hd ms) - wave_throughput (last ms)) / wave_throughput (hd ms) * 100"
    "SuddenDegradation \<in> set (issues a) \<longleftrightarrow>
       degradation_pct a > 20
       \<and> \<not> (wave_throughput (hd ms) - wave_throughput (ms ! (length ms div 2)))
              / wave_throughput (hd ms) > 0.1"
    "wave_throughput (hd ms) = 1000 \<and> wave_throughput (last ms) = 700
       \<and> memory_mb (last ms) - memory_mb (hd ms) = 150
       \<and> last (total_connections ms) - hd (total_connections ms) = 50
       \<longrightarrow> SignificantDegradation \<in> set (issues a)
           \<and> MemoryLeakSuspected \<in> set (issues a)
           \<and> ConnectionLeak \<notin> set (issues a)"
    using degradation_classification [OF len pos] by blast
  have pct: "degradation_pct a = 30" using a(2) by (simp add: e1 e2)
  have sudden: "SuddenDegradation \<in> set (issues a)"
    using a(3) pct by (simp add: e1 e5)
  show ?thesis
    unfolding ms_def [symmetric]
    using len a(1) a(4) e1 e2 e3 e4 pct sudden by blast
qed

subsection \<open>Concurrency bound\<close>

lemma count_list_update:
  "k < length xs \<Longrightarrow>
   count_list (xs[k := v]) a + (if xs ! k = a then 1 else 0)
     = count_list xs a + (if v = a then 1 else 0)"
proof (induction xs arbitrary: k)
  case Nil
  then show ?case by simp
next
  case (Cons x xs)
  show ?case
  proof (cases k)
    case 0
    then show ?thesis by simp
  next
    case (Suc j)
    then have "j < length xs" using Cons.prems by simp
    from Cons.IH [OF this] show ?thesis using Suc by (auto split: if_splits)
  qed
qed

lemma resume_keeps_permits:
  assumes "depth s + sem_value s = c"
  shows "depth (resume k s) + sem_value (resume k s) = c"
proof (cases "k < length (task_states s)")
  case False
  then show ?thesis using assms by (simp add: resume_def)
next
  case True
  show ?thesis
  proof (cases "task_states s ! k")
    case Waiting
    show ?thesis
    proof (cases "sem_value s > 0")
      case False
      then show ?thesis using assms True Waiting by (simp add: resume_def)
    next
      case pos: True
      have "count_list ((task_states s)[k := InFlight]) InFlight
              = count_list (task_states s) InFlight + 1"
        using count_list_update [OF True, of InFlight InFlight] Waiting by simp
      then show ?thesis using assms True Waiting pos by (simp add: resume_def depth_def)
    qed
  next
    case InFlight
    have "count_list ((task_states s)[k := Finished]) InFlight + 1
            = count_list (task_states s) InFlight"
      using count_list_update [OF True, of Finished InFlight] InFlight by simp
    then show ?thesis using assms True InFlight by (simp add: resume_def depth_def)
  next
    case Finished
    then show ?thesis using assms True by (simp add: resume_def)
  qed
qed

lemma run_schedule_keeps_permits:
  "depth s + sem_value s = c \<Longrightarrow>
   depth (run_schedule schedule s) + sem_value (run_schedule schedule s) = c"
  unfolding run_schedule_def
  by (induction schedule arbitrary: s) (simp_all add: resume_keeps_permits)

lemma start_controller_permits:
  "depth (start_controller c n) + sem_value (start_controller c n) = c"
  by (simp add: start_controller_def depth_def count_list_0_iff)

text \<open>The bound can be reached: with two permits and three tasks, two requests are in
  flight after the first three steps, and the third task goes in when one has left.\<close>

lemma run_schedule_example:
  "task_states (run_schedule [0, 1, 2] (start_controller 2 3)) = [InFlight, InFlight, Waiting]"
  "task_states (run_schedule [0, 1, 2, 0, 2] (start_controller 2 3))
     = [Finished, InFlight, InFlight]"
  by (simp_all add: run_schedule_def resume_def start_controller_def numeral_3_eq_3)

text \<open>
  C7. For every concurrency bound \<open>C\<close>, every number \<open>N\<close> of tasks and every order in
  which the event loop resumes the tasks, the number of requests in flight after
  the run so far is at most \<open>C\<close>. Every prefix of a schedule is a schedule, so the
  bound holds at every instant of the run.
\<close>

theorem concurrency_bound:
  "depth (run_schedule schedule (start_controller C N)) \<le> C"
  using run_schedule_keeps_permits [OF start_controller_permits, of schedule C N]
  by simp

subsection \<open>A run in which every request fails\<close>

lemma for_range_invariant:
  assumes "P s" and "\<And>i s. P s \<Longrightarrow> P (body i s)"
  shows "P (for_range i n c body s)"
  using assms
proof (induction i n c body s rule: for_range.induct)
  case (1 i n step body s)
  show ?case
  proof (cases "0 < step \<and> i < n")
    case True
    have "P (for_range (i + step) n step body (body i s))"
      using "1.IH" [OF True] "1.prems" by simp
    then show ?thesis using True by (simp add: for_range.simps [of i])
  next
    case False
    have "for_range i n step body s = s"
      by (subst for_range.simps) (simp only: False if_False)
    then show ?thesis using "1.prems"(1) by simp
  qed
qed

lemma record_failed_fixed:
  assumes "transport_failed (snd (snd x))"
  shows "successes (record_result_fixed (gathered (make_request_fixed x)) st) = successes st"
proof -
  obtain t0 t1 tr where x: "x = (t0, t1, tr)" by (cases x) auto
  show ?thesis using assms unfolding x by (cases tr) (simp_all add: gathered_def)
qed

lemma fold_record_failed_fixed:
  assumes "\<And>k. transport_failed (snd (snd (net k)))"
  shows "successes (fold record_result_fixed
                      (map (\<lambda>k. gathered (make_request_fixed (net k))) ks) st) = successes st"
  by (induction ks arbitrary: st) (simp_all add: record_failed_fixed [OF assms])

lemma fixed_loop_all_failed:
  assumes "\<And>k. transport_failed (snd (snd (net k)))"
  shows "successes (for_range 0 N c (chunk_body_fixed net N c) no_stats) = 0"
proof (rule for_range_invariant [where P = "\<lambda>s. successes s = 0"])
  show "successes no_stats = 0" by (simp add: no_stats_def)
next
  fix i and s :: stats
  assume "successes s = 0"
  then show "successes (chunk_body_fixed net N c i s) = 0"
    by (simp add: chunk_body_fixed_def Let_def fold_record_failed_fixed [OF assms])
qed

lemma run_batch_all_failed:
  assumes "0 < N" and "0 \<le> c" and "\<And>k. transport_failed (snd (snd (net k)))"
  shows "\<exists>r. run_batch b N c net t = Inr r \<and> batch_throughput r = 0 \<and> batch_successful r = 0"
proof -
  obtain r where r: "run_batch b N c net t = Inr r"
    "batch_throughput r = (if t > 0 then real (batch_successful r) / t else 0)"
    "batch_successful r
       = successes (for_range 0 N (min 500 N) (chunk_body_fixed net N (min 500 N)) no_stats)"
    using run_batch_returns [OF assms(1,2), of b net t] by blast
  have "batch_successful r = 0" using r(3) fixed_loop_all_failed [OF assms(3)] by simp
  then show ?thesis using r(1,2) by simp
qed

text \<open>
  The degradation check of \<open>run_benchmark\<close> divides by the throughput of the first
  batch, again with no test: a run of two batches in which every request fails ends
  with \<open>ZeroDivisionError\<close> as well.
\<close>

lemma run_benchmark_all_failed_raises:
  assumes "0 \<le> c" and "\<And>b k. transport_failed (snd (snd (net b k)))"
  shows "run_benchmark 5001 c net durations = Inl ZeroDivisionError"
proof -
  have nb: "[1..num_batches_of batch_size 5001] = [1, 2]"
    by (simp add: num_batches_of_def batch_size_def upto_rec1)
  have n1: "requests_in_batch_of batch_size 5001 1 = 5000"
    and n2: "requests_in_batch_of batch_size 5001 2 = 1"
    by (simp_all add: requests_in_batch_of_def batch_size_def)
  obtain r1 where r1: "run_batch 1 5000 c (net 1) (durations 1) = Inr r1"
    "batch_throughput r1 = 0" "batch_successful r1 = 0"
    using run_batch_all_failed [of 5000 c "net 1" 1 "durations 1"] assms by auto
  obtain r2 where r2: "run_batch 2 1 c (net 2) (durations 2) = Inr r2"
    "batch_throughput r2 = 0" "batch_successful r2 = 0"
    using run_batch_all_failed [of 1 c "net 2" 2 "durations 2"] assms by auto
  have loop: "run_batches 5001 c net durations [1, 2] ([], 0, 0, 0)
                = Inr ([r1, r2], duration r1 + duration r2,
                       batch_total_requests r1 + batch_total_requests r2, 0)"
    by (simp add: n1 n2 r1 r2 bind_err_def)
  show ?thesis
    unfolding run_benchmark_def Let_def nb loop
    by (simp add: bind_err_def py_truediv_def r1 r2)
qed

end
